theory Spec2Isabelle
  imports Main "HOL-Library.AList"
begin

section \<open>Data model\<close>

text \<open>
  Go's \<^verbatim>\<open>error\<close> interface values that can reach the not-owned-file check: the two
  errors a \<^verbatim>\<open>context.Context\<close> reports, a failure of the operating system or of a
  subprocess (carrying its message), \<^verbatim>\<open>errors.Wrap(err, msg)\<close> of github.com/pkg/errors
  and the aggregate \<^verbatim>\<open>*multierror.Error\<close> of github.com/hashicorp/go-multierror.
  A nil error is \<open>None\<close> of \<open>error option\<close>.
\<close>

datatype error =
    Canceled
  | DeadlineExceeded
  | Failure string
  | Wrap error string
  | MultiError "error list"

text \<open>\<^verbatim>\<open>codeowners.Entry\<close>, \<^verbatim>\<open>api.Input\<close>: the fields the check reads.\<close>

record Entry =
  Pattern :: string
  Owners :: "string list"

record Input =
  RepoDir :: string
  CodeownersEntries :: "Entry list"

text \<open>
  Modelled from the spec: package \<^verbatim>\<open>internal/api\<close> (\<^verbatim>\<open>Issue\<close>, \<^verbatim>\<open>Output\<close>,
  \<^verbatim>\<open>OutputBuilder\<close>) is not among the sources. The spec gives
  \<^verbatim>\<open>Issue = {Message: string}\<close> and \<^verbatim>\<open>CheckOutput = {Issues: ordered sequence of Issue}\<close>;
  the builder collects reported issues in order and \<^verbatim>\<open>Output()\<close> returns them.
\<close>

record Issue =
  Message :: string

record Output =
  Issues :: "Issue list"

record OutputBuilder =
  issues :: "Issue list"

definition empty_Output :: Output where
  "empty_Output = \<lparr>Issues = []\<rparr>"

definition new_OutputBuilder :: OutputBuilder where
  "new_OutputBuilder = \<lparr>issues = []\<rparr>"

definition ReportIssue :: "OutputBuilder \<Rightarrow> string \<Rightarrow> OutputBuilder" where
  "ReportIssue bldr msg = bldr\<lparr>issues := issues bldr @ [\<lparr>Message = msg\<rparr>]\<rparr>"

definition Output_of :: "OutputBuilder \<Rightarrow> Output" where
  "Output_of bldr = \<lparr>Issues = issues bldr\<rparr>"

text \<open>
  \<^verbatim>\<open>NotOwnedFileConfig\<close> and \<^verbatim>\<open>NotOwnedFile\<close>. The field \<^verbatim>\<open>skipPatterns\<close> is a
  \<^verbatim>\<open>map[string]struct{}\<close>: an association list with distinct keys, looked up with
  \<open>map_of\<close>. Go leaves the order in which \<^verbatim>\<open>range\<close> visits a map unspecified; the
  order of the list stands for the order of the run at hand (only \<^verbatim>\<open>skipPatternsList\<close>
  depends on it).
\<close>

record NotOwnedFileConfig =
  TrustWorkspace :: bool
  SkipPatterns :: "string list"
  Subdirectories :: "string list"

record NotOwnedFile =
  skipPatterns :: "(string \<times> unit) list"
  subDirectories :: "string list"
  trustWorkspace :: bool

definition NewNotOwnedFile :: "NotOwnedFileConfig \<Rightarrow> NotOwnedFile" where
  "NewNotOwnedFile cfg =
     \<lparr>skipPatterns = fold (\<lambda>p skip. AList.update p () skip) (SkipPatterns cfg) [],
      subDirectories = Subdirectories cfg,
      trustWorkspace = TrustWorkspace cfg\<rparr>"

section \<open>The pattern-exclusion computation\<close>

text \<open>
  \<^verbatim>\<open>patternsToBeIgnored\<close>: the loop over the entries, with the slice \<^verbatim>\<open>patterns\<close>
  as accumulator (\<^verbatim>\<open>continue\<close> when the pattern is a key of \<^verbatim>\<open>skipPatterns\<close>,
  \<^verbatim>\<open>append\<close> otherwise).
\<close>

fun patternsToBeIgnored_loop ::
  "(string \<times> unit) list \<Rightarrow> Entry list \<Rightarrow> string list \<Rightarrow> string list" where
  "patternsToBeIgnored_loop skip [] patterns = patterns"
| "patternsToBeIgnored_loop skip (entry # entries) patterns =
     (if map_of skip (Pattern entry) \<noteq> None
      then patternsToBeIgnored_loop skip entries patterns
      else patternsToBeIgnored_loop skip entries (patterns @ [Pattern entry]))"

definition patternsToBeIgnored :: "NotOwnedFile \<Rightarrow> Entry list \<Rightarrow> string list" where
  "patternsToBeIgnored c entries = patternsToBeIgnored_loop (skipPatterns c) entries []"

text \<open>
  The contract of the spec, in its words (section 4.1): the patterns, in entry order,
  with any pattern present in the skip set removed.
\<close>

definition ComputeExcludedPatterns :: "Entry list \<Rightarrow> string set \<Rightarrow> string list" where
  "ComputeExcludedPatterns entries skipSet =
     filter (\<lambda>p. p \<notin> skipSet) (map Pattern entries)"

section \<open>The process exit decision\<close>

text \<open>
  The \<^verbatim>\<open>Run\<close> closure of \<^verbatim>\<open>NewRoot\<close>. Its collaborators (\<^verbatim>\<open>envconfig.Init\<close>,
  \<^verbatim>\<open>load.Checks\<close>, \<^verbatim>\<open>codeowners.NewFromPath\<close>, \<^verbatim>\<open>filepath.Abs\<close>, the check runner)
  are not among the sources; what they return is a parameter: the four errors of the
  initialisation steps, the error the command's context carries once the runner is back,
  and the value of \<^verbatim>\<open>ShouldExitWithCheckFailure()\<close>. \<^verbatim>\<open>exitOnError\<close> ends the process
  through \<^verbatim>\<open>logrus.Fatal\<close>, which exits with code 1. \<open>Returns\<close> is the closure coming
  back without a call of \<^verbatim>\<open>os.Exit\<close>.
\<close>

datatype outcome = Exit nat | Returns

definition exitOnError :: "error option \<Rightarrow> outcome \<Rightarrow> outcome" where
  "exitOnError err rest = (if err \<noteq> None then Exit 1 else rest)"

definition Run :: "error option \<Rightarrow> error option \<Rightarrow> error option \<Rightarrow> error option \<Rightarrow>
    error option \<Rightarrow> bool \<Rightarrow> outcome" where
  "Run initErr checksErr entriesErr absErr ctxErr shouldExitWithCheckFailure =
     exitOnError initErr
       (exitOnError checksErr
         (exitOnError entriesErr
           (exitOnError absErr
             (if ctxErr \<noteq> None then Exit 2
              else if shouldExitWithCheckFailure then Exit 3
              else Returns))))"

section \<open>Strings and formatting\<close>

text \<open>
  The functions of Go's \<^verbatim>\<open>strings\<close>, \<^verbatim>\<open>fmt\<close> and \<^verbatim>\<open>path\<close> packages that the check
  calls, on byte strings. \<^verbatim>\<open>strings.TrimSpace\<close> is modelled for the ASCII white space
  (tab, line feed, vertical tab, form feed, carriage return, space); \<^verbatim>\<open>path.Join\<close> for
  a directory that is already clean, as \<^verbatim>\<open>filepath.Abs\<close> returns it, and a plain file
  name; the verb \<^verbatim>\<open>%q\<close> for a string of printable characters (quotes and backslashes
  are escaped, the usual control characters get their letter).
\<close>

definition isSpace :: "char \<Rightarrow> bool" where
  "isSpace ch \<longleftrightarrow> ch \<in> {CHR 0x09, CHR 0x0A, CHR 0x0B, CHR 0x0C, CHR 0x0D, CHR 0x20}"

definition TrimSpace :: "string \<Rightarrow> string" where
  "TrimSpace s = rev (dropWhile isSpace (rev (dropWhile isSpace s)))"

fun Split :: "string \<Rightarrow> char \<Rightarrow> string list" where
  "Split [] sep = [[]]"
| "Split (ch # s) sep =
     (if ch = sep then [] # Split s sep
      else (case Split s sep of
              [] \<Rightarrow> [[ch]]
            | w # ws \<Rightarrow> (ch # w) # ws))"

fun Join :: "string list \<Rightarrow> string \<Rightarrow> string" where
  "Join [] sep = []"
| "Join [x] sep = x"
| "Join (x # y # ys) sep = x @ sep @ Join (y # ys) sep"

definition digit :: "nat \<Rightarrow> char" where
  "digit n = ''0123456789'' ! (n mod 10)"

fun Sprintf_d :: "nat \<Rightarrow> string" where
  "Sprintf_d n = (if n < 10 then [digit n] else Sprintf_d (n div 10) @ [digit n])"

definition quote_char :: "char \<Rightarrow> string" where
  "quote_char ch =
     (if ch = CHR 0x22 then [CHR 0x5C, CHR 0x22]
      else if ch = CHR 0x5C then [CHR 0x5C, CHR 0x5C]
      else if ch = CHR 0x0A then [CHR 0x5C, CHR ''n'']
      else if ch = CHR 0x0D then [CHR 0x5C, CHR ''r'']
      else if ch = CHR 0x09 then [CHR 0x5C, CHR ''t'']
      else [ch])"

definition Sprintf_q :: "string \<Rightarrow> string" where
  "Sprintf_q s = [CHR 0x22] @ concat (map quote_char s) @ [CHR 0x22]"

definition path_Join :: "string \<Rightarrow> string \<Rightarrow> string" where
  "path_Join dir name =
     (if dir = [] then name
      else if last dir = CHR ''/'' then dir @ name
      else dir @ ''/'' @ name)"

section \<open>The environment of the check\<close>

text \<open>
  The check works on the outside world only through library calls: it runs subprocesses
  with gopkg.in/pipe.v2 and appends to a file with package \<^verbatim>\<open>os\<close>. A \<open>pipe\<close> value is
  the pipe the source builds (\<^verbatim>\<open>pipe.Exec\<close>, \<^verbatim>\<open>pipe.ChDir\<close>, \<^verbatim>\<open>pipe.Line\<close>,
  \<^verbatim>\<open>pipe.Script\<close>), with the command line as the source writes it.
\<close>

datatype pipe =
    Exec string "string list"
  | ChDir string
  | Line "pipe list"
  | Script "pipe list"

datatype oflag = O_RDONLY | O_WRONLY | O_RDWR | O_APPEND | O_CREATE | O_EXCL | O_TRUNC

text \<open>An open \<^verbatim>\<open>*os.File\<close>: the name and the flags it was opened with.\<close>

datatype os_file = File string "oflag set"

text \<open>
  What these calls do is not code of the repository, so the check is modelled against an
  environment: a record of the four calls, each a function of the state \<open>'w\<close> of the
  outside world that returns the call's results and the world it leaves.
  \<^verbatim>\<open>pipe.DividedOutput\<close> returns standard output, standard error and an error;
  \<^verbatim>\<open>os.OpenFile\<close> a file or an error; \<^verbatim>\<open>WriteString\<close> the number of bytes written and
  an error; \<^verbatim>\<open>Close\<close> an error.
\<close>

record 'w env =
  pipe_DividedOutput :: "pipe \<Rightarrow> 'w \<Rightarrow> (string \<times> string \<times> error option) \<times> 'w"
  os_OpenFile :: "string \<Rightarrow> oflag set \<Rightarrow> nat \<Rightarrow> 'w \<Rightarrow> (error + os_file) \<times> 'w"
  file_WriteString :: "os_file \<Rightarrow> string \<Rightarrow> 'w \<Rightarrow> (nat \<times> error option) \<times> 'w"
  file_Close :: "os_file \<Rightarrow> 'w \<Rightarrow> error option \<times> 'w"

text \<open>
  The state the check is threaded through: the world, and the log of the calls made so
  far, in order, each with its arguments.
\<close>

datatype call =
    Cmd pipe
  | Opened string "oflag set" nat
  | Written os_file string
  | Closed os_file

record 'w sys =
  world :: 'w
  calls :: "call list"

definition DividedOutput ::
  "'w env \<Rightarrow> pipe \<Rightarrow> 'w sys \<Rightarrow> (string \<times> string \<times> error option) \<times> 'w sys" where
  "DividedOutput E p s =
     (case pipe_DividedOutput E p (world s) of
        (r, w) \<Rightarrow> (r, \<lparr>world = w, calls = calls s @ [Cmd p]\<rparr>))"

definition OpenFile ::
  "'w env \<Rightarrow> string \<Rightarrow> oflag set \<Rightarrow> nat \<Rightarrow> 'w sys \<Rightarrow> (error + os_file) \<times> 'w sys" where
  "OpenFile E name flags perm s =
     (case os_OpenFile E name flags perm (world s) of
        (r, w) \<Rightarrow> (r, \<lparr>world = w, calls = calls s @ [Opened name flags perm]\<rparr>))"

definition WriteString ::
  "'w env \<Rightarrow> os_file \<Rightarrow> string \<Rightarrow> 'w sys \<Rightarrow> (nat \<times> error option) \<times> 'w sys" where
  "WriteString E f b s =
     (case file_WriteString E f b (world s) of
        (r, w) \<Rightarrow> (r, \<lparr>world = w, calls = calls s @ [Written f b]\<rparr>))"

definition Close :: "'w env \<Rightarrow> os_file \<Rightarrow> 'w sys \<Rightarrow> error option \<times> 'w sys" where
  "Close E f s =
     (case file_Close E f (world s) of
        (r, w) \<Rightarrow> (r, \<lparr>world = w, calls = calls s @ [Closed f]\<rparr>))"

text \<open>
  The cancellation token. A \<^verbatim>\<open>context.Context\<close> is cancelled from outside, at any
  moment; the moments the check can tell apart are the calls it makes, so the token is
  the error \<^verbatim>\<open>ctx.Err()\<close> would return after a given number of calls of the log
  (\<open>None\<close> while the context is live).

  Modelled from the spec: \<^verbatim>\<open>ctxutil.ShouldExit\<close> is not among the sources. The spec has
  every check observe the token and return the token's error when it is cancelled:
  \<^verbatim>\<open>ShouldExit\<close> is true exactly when the context carries an error.
\<close>

type_synonym ctx = "nat \<Rightarrow> error option"

definition ctx_Err :: "ctx \<Rightarrow> 'w sys \<Rightarrow> error option" where
  "ctx_Err c s = c (length (calls s))"

definition ShouldExit :: "ctx \<Rightarrow> 'w sys \<Rightarrow> bool" where
  "ShouldExit c s \<longleftrightarrow> ctx_Err c s \<noteq> None"

text \<open>
  \<^verbatim>\<open>multierror.Append(err, errs...)\<close> for one further error, and \<^verbatim>\<open>ErrorOrNil\<close>: an
  aggregate is extended (an aggregate argument is flattened into it), any other non-nil
  error becomes the first member of a new aggregate, and nil errors are left out.
\<close>

definition members :: "error option \<Rightarrow> error list" where
  "members e = (case e of None \<Rightarrow> [] | Some (MultiError es) \<Rightarrow> es | Some x \<Rightarrow> [x])"

definition multierror_Append :: "error option \<Rightarrow> error option \<Rightarrow> error list" where
  "multierror_Append err e =
     (case err of
        Some (MultiError es) \<Rightarrow> es @ members e
      | Some x \<Rightarrow> [x] @ members e
      | None \<Rightarrow> members e)"

definition ErrorOrNil :: "error list \<Rightarrow> error option" where
  "ErrorOrNil es = (if length es = 0 then None else Some (MultiError es))"

section \<open>The not-owned-file check\<close>

text \<open>The five functions that run a subprocess, with the pipes of the source.\<close>

definition status_pipe :: "string \<Rightarrow> pipe" where
  "status_pipe repoDir = Script [ChDir repoDir, Exec ''git'' [''status'', ''--porcelain'']]"

definition GitCheckStatus :: "'w env \<Rightarrow> NotOwnedFile \<Rightarrow> string \<Rightarrow> 'w sys \<Rightarrow> (error + string) \<times> 'w sys" where
  "GitCheckStatus E c repoDir s =
     (case DividedOutput E (status_pipe repoDir) s of
        ((out, stderr, Some err), s') \<Rightarrow> (Inl (Wrap err stderr), s')
      | ((out, stderr, None), s') \<Rightarrow> (Inr out, s'))"

definition rm_pipe :: "string \<Rightarrow> pipe" where
  "rm_pipe repoDir =
     Script [ChDir repoDir,
       Line [Exec ''git'' [''ls-files'', ''-ci'', ''--exclude-standard'', ''-z''],
             Exec ''xargs'' [''-0'', ''-r'', ''git'', ''rm'', ''--cached'']]]"

definition GitRemoveIgnoredFiles :: "'w env \<Rightarrow> NotOwnedFile \<Rightarrow> string \<Rightarrow> 'w sys \<Rightarrow> error option \<times> 'w sys" where
  "GitRemoveIgnoredFiles E c repoDir s =
     (case DividedOutput E (rm_pipe repoDir) s of
        ((out, stderr, Some err), s') \<Rightarrow> (Some (Wrap err stderr), s')
      | ((out, stderr, None), s') \<Rightarrow> (None, s'))"

definition reset_pipe :: "string \<Rightarrow> pipe" where
  "reset_pipe repoDir = Script [ChDir repoDir, Exec ''git'' [''reset'', ''--hard'']]"

definition GitResetCurrentBranch :: "'w env \<Rightarrow> NotOwnedFile \<Rightarrow> string \<Rightarrow> 'w sys \<Rightarrow> error option \<times> 'w sys" where
  "GitResetCurrentBranch E c repoDir s =
     (case DividedOutput E (reset_pipe repoDir) s of
        ((out, stderr, Some err), s') \<Rightarrow> (Some (Wrap err stderr), s')
      | ((out, stderr, None), s') \<Rightarrow> (None, s'))"

definition ls_pipe :: "NotOwnedFile \<Rightarrow> string \<Rightarrow> pipe" where
  "ls_pipe c repoDir = Script [ChDir repoDir, Exec ''git'' ([''ls-files''] @ subDirectories c)]"

definition GitListFiles :: "'w env \<Rightarrow> NotOwnedFile \<Rightarrow> string \<Rightarrow> 'w sys \<Rightarrow> (error + string) \<times> 'w sys" where
  "GitListFiles E c repoDir s =
     (case DividedOutput E (ls_pipe c repoDir) s of
        ((out, stderr, Some err), s') \<Rightarrow> (Inl (Wrap err stderr), s')
      | ((out, stderr, None), s') \<Rightarrow> (Inr out, s'))"

definition trust_pipe :: "string \<Rightarrow> pipe" where
  "trust_pipe repo = Exec ''git'' [''config'', ''--global'', ''--add'', ''safe.directory'', repo]"

definition trustWorkspaceIfNeeded :: "'w env \<Rightarrow> NotOwnedFile \<Rightarrow> string \<Rightarrow> 'w sys \<Rightarrow> error option \<times> 'w sys" where
  "trustWorkspaceIfNeeded E c repo s =
     (if \<not> trustWorkspace c then (None, s)
      else (case DividedOutput E (trust_pipe repo) s of
              ((out, stderr, Some err), s') \<Rightarrow> (Some (Wrap err stderr), s')
            | ((out, stderr, None), s') \<Rightarrow> (None, s')))"

text \<open>
  \<^verbatim>\<open>AppendToGitignoreFile\<close>: the file is opened with
  \<^verbatim>\<open>O_APPEND|O_CREATE|O_WRONLY\<close> and mode 0644 (420), the content is built in a
  \<^verbatim>\<open>strings.Builder\<close> (a line feed, then \<^verbatim>\<open>Sprintf("%s\n", p)\<close> for every pattern) and
  written with one \<^verbatim>\<open>WriteString\<close>; the deferred \<^verbatim>\<open>Close\<close> runs last and its error is
  dropped.
\<close>

definition gitignore_flags :: "oflag set" where
  "gitignore_flags = {O_APPEND, O_CREATE, O_WRONLY}"

definition gitignore_content :: "string list \<Rightarrow> string" where
  "gitignore_content patterns = fold (\<lambda>p content. content @ (p @ [CHR 0x0A])) patterns [CHR 0x0A]"

definition AppendToGitignoreFile :: "'w env \<Rightarrow> NotOwnedFile \<Rightarrow> string \<Rightarrow> string list \<Rightarrow> 'w sys \<Rightarrow> error option \<times> 'w sys" where
  "AppendToGitignoreFile E c repoDir patterns s =
     (case OpenFile E (path_Join repoDir ''.gitignore'') gitignore_flags 420 s of
        (Inl err, s1) \<Rightarrow> (Some err, s1)
      | (Inr f, s1) \<Rightarrow>
          (case WriteString E f (gitignore_content patterns) s1 of
             ((n, err), s2) \<Rightarrow> (err, snd (Close E f s2))))"

text \<open>\<^verbatim>\<open>skipPatternsList\<close> and \<^verbatim>\<open>ListFormatFunc\<close>.\<close>

definition skipPatternsList :: "NotOwnedFile \<Rightarrow> string" where
  "skipPatternsList c = Join (map fst (skipPatterns c)) '',''"

definition ListFormatFunc :: "NotOwnedFile \<Rightarrow> string list \<Rightarrow> string" where
  "ListFormatFunc c es = Join (map (\<lambda>e. ''            * '' @ e) es) [CHR 0x0A]"

definition empty_msg :: string where
  "empty_msg = ''The CODEOWNERS file is empty. The files in the repository don't have any owner.''"

definition dirty_msg :: string where
  "dirty_msg = ''git state is dirty: commit all changes before executing this check''"

definition found_msg :: "NotOwnedFile \<Rightarrow> string list \<Rightarrow> string" where
  "found_msg c lines =
     ''Found '' @ Sprintf_d (length lines) @ '' not owned files (skipped patterns: ''
       @ Sprintf_q (skipPatternsList c) @ ''):'' @ [CHR 0x0A] @ ListFormatFunc c lines"

text \<open>\<^verbatim>\<open>Name\<close>: the name of the validator.\<close>

definition Name :: string where
  "Name = ''[Experimental] Not Owned File Checker''"

text \<open>
  \<^verbatim>\<open>Check\<close>, in three parts. \<open>Check_steps\<close> is the code after the \<^verbatim>\<open>defer\<close> statement
  (lines 82 to 104), returning the named results \<^verbatim>\<open>output\<close> and \<^verbatim>\<open>err\<close>.
  \<open>Check_deferred\<close> is the deferred function (lines 74 to 80): it runs once those
  results are set, resets the branch, and rewrites the results when \<^verbatim>\<open>err\<close> is not nil.
  \<open>Check\<close> is the whole method: the returns before the \<^verbatim>\<open>defer\<close> statement do not run
  the deferred function.
\<close>

definition Check_steps ::
  "'w env \<Rightarrow> NotOwnedFile \<Rightarrow> Input \<Rightarrow> string list \<Rightarrow> OutputBuilder \<Rightarrow> 'w sys
     \<Rightarrow> (Output \<times> error option) \<times> 'w sys" where
  "Check_steps E c inp patterns bldr s =
     (case AppendToGitignoreFile E c (RepoDir inp) patterns s of
        (Some err, s1) \<Rightarrow> ((empty_Output, Some err), s1)
      | (None, s1) \<Rightarrow>
     (case GitRemoveIgnoredFiles E c (RepoDir inp) s1 of
        (Some err, s2) \<Rightarrow> ((empty_Output, Some err), s2)
      | (None, s2) \<Rightarrow>
     (case GitListFiles E c (RepoDir inp) s2 of
        (Inl err, s3) \<Rightarrow> ((empty_Output, Some err), s3)
      | (Inr out, s3) \<Rightarrow>
          (let lsOut = TrimSpace out in
           if lsOut \<noteq> []
           then ((Output_of (ReportIssue bldr (found_msg c (Split lsOut (CHR 0x0A)))), None), s3)
           else ((Output_of bldr, None), s3)))))"

definition Check_deferred ::
  "'w env \<Rightarrow> NotOwnedFile \<Rightarrow> Input \<Rightarrow> (Output \<times> error option) \<times> 'w sys
     \<Rightarrow> (Output \<times> error option) \<times> 'w sys" where
  "Check_deferred E c inp r =
     (case r of ((output, err), s) \<Rightarrow>
        (case GitResetCurrentBranch E c (RepoDir inp) s of
           (errReset, s') \<Rightarrow>
             if err \<noteq> None
             then ((empty_Output, ErrorOrNil (multierror_Append err errReset)), s')
             else ((output, err), s')))"

definition Check ::
  "'w env \<Rightarrow> NotOwnedFile \<Rightarrow> ctx \<Rightarrow> Input \<Rightarrow> 'w sys \<Rightarrow> (Output \<times> error option) \<times> 'w sys" where
  "Check E c cx inp s =
     (if ShouldExit cx s then ((empty_Output, ctx_Err cx s), s)
      else if length (CodeownersEntries inp) = 0
      then ((Output_of (ReportIssue new_OutputBuilder empty_msg), None), s)
      else
        (let patterns = patternsToBeIgnored c (CodeownersEntries inp) in
         case trustWorkspaceIfNeeded E c (RepoDir inp) s of
           (Some err, s1) \<Rightarrow> ((empty_Output, Some err), s1)
         | (None, s1) \<Rightarrow>
        (case GitCheckStatus E c (RepoDir inp) s1 of
           (Inl err, s2) \<Rightarrow> ((empty_Output, Some err), s2)
         | (Inr statusOut, s2) \<Rightarrow>
             if length statusOut \<noteq> 0
             then ((Output_of (ReportIssue new_OutputBuilder dirty_msg), None), s2)
             else Check_deferred E c inp
                    (Check_steps E c inp patterns new_OutputBuilder s2))))"

section \<open>A reference environment: git, xargs and the file system\<close>

text \<open>
  The claims about the repository itself (what is on disk and in the index when the check
  returns) depend on what the commands do. This section is an environment that follows
  the documented behaviour of the commands the check issues, for one repository:
  \<^item> \<open>repo\<close> is the root of its working tree; \<open>HEAD\<close> the tree of the commit the
    current branch points to and \<open>index\<close> the index, both as lists of path (relative to
    the root) and content; \<open>disk\<close> the files of the machine, by full name;
  \<^item> git's two pattern languages are parameters, the record \<open>ign\<close>: \<open>ignored\<close> says
    which paths the active ignore rules match, as a function of the content of the root's
    \<^verbatim>\<open>.gitignore\<close> (\<open>None\<close> when there is none) and of the path, standing for the
    matching of ignore patterns with the standard exclusions; \<open>pathspec\<close> says which
    paths a pathspec with wildcard or magic characters matches (gitglossary(7));
  \<^item> every call can fail for reasons outside the model (a lock, a full disk, a missing
    binary): \<open>faults\<close> says which calls do, with what error. A subprocess that fails
    this way leaves the world as it was; a write that fails leaves the bytes written
    before the failure.
\<close>

record git_world =
  repo :: string
  HEAD :: "(string \<times> string) list"
  index :: "(string \<times> string) list"
  disk :: "(string \<times> string) list"

record faults =
  pipe_fault :: "pipe \<Rightarrow> (string \<times> error) option"
  open_fault :: "string \<Rightarrow> error option"
  write_fault :: "os_file \<Rightarrow> (nat \<times> error) option"

definition no_faults :: faults where
  "no_faults = \<lparr>pipe_fault = (\<lambda>p. None), open_fault = (\<lambda>n. None), write_fault = (\<lambda>f. None)\<rparr>"

record ign =
  ignored :: "string option \<Rightarrow> string \<Rightarrow> bool"
  pathspec :: "string \<Rightarrow> string \<Rightarrow> bool"

definition gitignore_of :: "git_world \<Rightarrow> string option" where
  "gitignore_of w = map_of (disk w) (path_Join (repo w) ''.gitignore'')"

definition relative :: "string \<Rightarrow> string \<Rightarrow> string option" where
  "relative dir name =
     (let pre = path_Join dir [] in
      if length pre < length name \<and> take (length pre) name = pre
      then Some (drop (length pre) name) else None)"

text \<open>
  \<^verbatim>\<open>git status --porcelain\<close> (git-status(1), short format): one line per path that
  differs between \<open>HEAD\<close> and the index (first letter), between the index and the disk
  (second letter), or that is on disk, untracked and not ignored (\<^verbatim>\<open>??\<close>). The output
  is empty exactly when there is no such path.
\<close>

definition status_paths :: "git_world \<Rightarrow> string list" where
  "status_paths w =
     remdups (map fst (HEAD w) @ map fst (index w)
              @ List.map_filter (relative (repo w)) (map fst (disk w)))"

definition status_line :: "ign \<Rightarrow> git_world \<Rightarrow> string \<Rightarrow> string" where
  "status_line ig w p =
     (let h = map_of (HEAD w) p; i = map_of (index w) p;
          d = map_of (disk w) (path_Join (repo w) p)
      in if h = None \<and> i = None
         then (if d \<noteq> None \<and> \<not> ignored ig (gitignore_of w) p then ''?? '' @ p @ [CHR 0x0A] else [])
         else
           (let X = (if i = h then CHR '' '' else if h = None then CHR ''A''
                     else if i = None then CHR ''D'' else CHR ''M'');
                Y = (if i = None \<or> d = i then CHR '' '' else if d = None then CHR ''D''
                     else CHR ''M'')
            in if X = CHR '' '' \<and> Y = CHR '' '' then []
               else [X, Y, CHR '' ''] @ p @ [CHR 0x0A]))"

definition git_status :: "ign \<Rightarrow> git_world \<Rightarrow> string" where
  "git_status ig w = concat (map (status_line ig w) (status_paths w))"

text \<open>
  How git reads the arguments of a command (gitcli(7)): an argument that begins with a
  dash and is longer than one character is an option, wherever it stands before the
  argument \<^verbatim>\<open>--\<close>; the other arguments, and all arguments after \<^verbatim>\<open>--\<close>, are pathspecs.
  A pathspec that begins with a colon or holds one of the characters \<^verbatim>\<open>* ? [ \\<close> is
  matched as \<open>pathspec\<close> says; any other pathspec matches the path of that name and, as
  a directory, the paths below it.
\<close>

definition option_like :: "string \<Rightarrow> bool" where
  "option_like a \<longleftrightarrow> 2 \<le> length a \<and> hd a = CHR ''-''"

definition options_of :: "string list \<Rightarrow> string list" where
  "options_of args = filter option_like (takeWhile (\<lambda>a. a \<noteq> ''--'') args)"

definition pathspecs_of :: "string list \<Rightarrow> string list" where
  "pathspecs_of args =
     filter (\<lambda>a. \<not> option_like a) (takeWhile (\<lambda>a. a \<noteq> ''--'') args)
       @ drop 1 (dropWhile (\<lambda>a. a \<noteq> ''--'') args)"

definition special :: "string \<Rightarrow> bool" where
  "special a \<longleftrightarrow>
     take 1 a = '':'' \<or> list_ex (\<lambda>ch. ch \<in> {CHR ''*'', CHR ''?'', CHR ''['', CHR 0x5C}) a"

definition below :: "string \<Rightarrow> string \<Rightarrow> bool" where
  "below dir p \<longleftrightarrow> p = dir \<or> take (length (path_Join dir [])) p = path_Join dir []"

definition matches :: "ign \<Rightarrow> string \<Rightarrow> string \<Rightarrow> bool" where
  "matches ig spec p = (if special spec then pathspec ig spec p else below spec p)"

text \<open>
  \<^verbatim>\<open>git ls-files -ci --exclude-standard -z\<close> (git-ls-files(1): \<^verbatim>\<open>-c\<close> shows the files
  of the index, \<^verbatim>\<open>-i\<close> only those that an exclude pattern matches, \<^verbatim>\<open>-z\<close> ends every
  path with a NUL): the paths of the index that the ignore rules match, each followed by
  a NUL. \<^verbatim>\<open>git ls-files\<close> with pathspecs: the paths of the index that one of them
  matches (all paths with no pathspec), one per line.
\<close>

definition ls_files_ci :: "ign \<Rightarrow> git_world \<Rightarrow> string list" where
  "ls_files_ci ig w = filter (ignored ig (gitignore_of w)) (map fst (index w))"

definition ls_files :: "ign \<Rightarrow> string list \<Rightarrow> git_world \<Rightarrow> string list" where
  "ls_files ig specs w =
     filter (\<lambda>p. specs = [] \<or> list_ex (\<lambda>spec. matches ig spec p) specs) (map fst (index w))"

text \<open>
  \<^verbatim>\<open>git rm\<close> (git-rm(1)). The options are those of the manual's synopsis, in the
  spellings of \<open>rm_options\<close> (git also accepts abbreviated long options and clusters of
  short ones; such arguments are unknown options here). Every pathspec must match a path
  of the index (unless \<^verbatim>\<open>--ignore-unmatch\<close>); a pathspec that matches as a directory
  needs \<^verbatim>\<open>-r\<close>; and, unless forced, the entries to remove must be up to date: with
  \<^verbatim>\<open>--cached\<close> the staged content is that of \<open>HEAD\<close> or that of the file on disk,
  without it the staged content is that of \<open>HEAD\<close> and the file on disk, if there, has
  it too. Then, with \<^verbatim>\<open>-n\<close> (\<^verbatim>\<open>--dry-run\<close>) nothing is removed; with \<^verbatim>\<open>--cached\<close>
  the matched paths leave the index only and the files of the working tree are left
  alone; without it the files are deleted as well.
\<close>

definition rm_options :: "string list" where
  "rm_options = [''-f'', ''--force'', ''-n'', ''--dry-run'', ''-r'', ''--cached'',
                 ''--ignore-unmatch'', ''--sparse'', ''-q'', ''--quiet'']"

definition up_to_date :: "bool \<Rightarrow> git_world \<Rightarrow> string \<times> string \<Rightarrow> bool" where
  "up_to_date cached w e =
     (let h = map_of (HEAD w) (fst e); d = map_of (disk w) (path_Join (repo w) (fst e))
      in if cached then h = Some (snd e) \<or> d = Some (snd e)
         else h = Some (snd e) \<and> (d = None \<or> d = Some (snd e)))"

definition git_rm :: "ign \<Rightarrow> string list \<Rightarrow> git_world \<Rightarrow> (string \<times> string \<times> error option) \<times> git_world" where
  "git_rm ig args w =
     (let opts = options_of args; specs = pathspecs_of args;
          tracked = map fst (index w);
          hit = (\<lambda>p. list_ex (\<lambda>spec. matches ig spec p) specs)
      in if \<not> list_all (\<lambda>a. a \<in> set rm_options) opts
         then (([], ''error: unknown option'', Some (Failure ''exit status 129'')), w)
         else if specs = []
         then (([], ''fatal: No pathspec was given. Which files should I remove?'',
                Some (Failure ''exit status 128'')), w)
         else if ''--ignore-unmatch'' \<notin> set opts
                 \<and> \<not> list_all (\<lambda>spec. list_ex (matches ig spec) tracked) specs
         then (([], ''fatal: pathspec did not match any files'', Some (Failure ''exit status 128'')), w)
         else if ''-r'' \<notin> set opts
                 \<and> list_ex (\<lambda>spec. \<not> special spec \<and> list_ex (\<lambda>p. p \<noteq> spec \<and> below spec p) tracked) specs
         then (([], ''fatal: not removing recursively without -r'', Some (Failure ''exit status 128'')), w)
         else if ''-f'' \<notin> set opts \<and> ''--force'' \<notin> set opts
                 \<and> \<not> list_all (up_to_date (''--cached'' \<in> set opts) w)
                        (filter (\<lambda>e. hit (fst e)) (index w))
         then (([], ''error: the following file has local modifications'',
                Some (Failure ''exit status 1'')), w)
         else if ''-n'' \<in> set opts \<or> ''--dry-run'' \<in> set opts
         then (([], [], None), w)
         else (([], [], None),
               w\<lparr>index := filter (\<lambda>e. \<not> hit (fst e)) (index w),
                 disk := (if ''--cached'' \<in> set opts then disk w
                          else fold (\<lambda>p dk. AList.delete (path_Join (repo w) p) dk)
                                 (filter hit tracked) (disk w))\<rparr>))"

text \<open>
  A path that \<^verbatim>\<open>git rm\<close> reads, as an argument, as the name of that one entry of the
  index: it is not an option, it has no wildcard or magic character, and no other path of
  the index lies below it (in a git index no entry lies below another).
\<close>

definition plain_path :: "git_world \<Rightarrow> string \<Rightarrow> bool" where
  "plain_path w p \<longleftrightarrow>
     \<not> option_like p \<and> \<not> special p
     \<and> list_all (\<lambda>q. below p q \<longrightarrow> q = p) (map fst (index w))"

text \<open>
  \<^verbatim>\<open>git reset --hard\<close> (git-reset(1): resets the index and the working tree, discarding
  the changes to tracked files): the index becomes the tree of \<open>HEAD\<close>, and every path
  of the old index or of \<open>HEAD\<close> gets the content it has in \<open>HEAD\<close> on disk (it is
  deleted when \<open>HEAD\<close> does not have it). Files that are not tracked are left alone.
\<close>

definition git_reset_hard :: "git_world \<Rightarrow> git_world" where
  "git_reset_hard w =
     w\<lparr>index := HEAD w,
       disk := fold (\<lambda>p dk. case map_of (HEAD w) p of
                              Some content \<Rightarrow> AList.update (path_Join (repo w) p) content dk
                            | None \<Rightarrow> AList.delete (path_Join (repo w) p) dk)
                    (map fst (index w) @ map fst (HEAD w)) (disk w)\<rparr>"

text \<open>
  The git binary: the command lines above, run in directory \<open>cwd\<close> (\<open>None\<close> when the
  pipe does not change directory). \<^verbatim>\<open>git config --global\<close> works in any directory and
  changes nothing of the repository; the other commands need the root of the working tree.
  Standard output the check does not read is left empty. Of \<^verbatim>\<open>git ls-files\<close> only the
  two forms above are modelled: with any other option it is a usage error here.
\<close>

definition git :: "ign \<Rightarrow> string option \<Rightarrow> string list \<Rightarrow> git_world \<Rightarrow> (string \<times> string \<times> error option) \<times> git_world" where
  "git ig cwd args w =
     (if take 4 args = [''config'', ''--global'', ''--add'', ''safe.directory''] \<and> length args = 5
      then (([], [], None), w)
      else if cwd \<noteq> Some (repo w)
      then (([], ''fatal: not a git repository'', Some (Failure ''exit status 128'')), w)
      else if args = [''status'', ''--porcelain''] then ((git_status ig w, [], None), w)
      else if args = [''ls-files'', ''-ci'', ''--exclude-standard'', ''-z'']
      then ((concat (map (\<lambda>p. p @ [CHR 0x00]) (ls_files_ci ig w)), [], None), w)
      else if take 1 args = [''ls-files'']
      then (if options_of (drop 1 args) \<noteq> []
            then (([], ''usage: git ls-files'', Some (Failure ''exit status 129'')), w)
            else ((concat (map (\<lambda>p. p @ [CHR 0x0A])
                     (ls_files ig (pathspecs_of (drop 1 args)) w)), [], None), w))
      else if take 1 args = [''rm''] then git_rm ig (drop 1 args) w
      else if args = [''reset'', ''--hard''] then (([], [], None), git_reset_hard w)
      else (([], ''usage: git'', Some (Failure ''exit status 129'')), w))"

text \<open>
  \<^verbatim>\<open>xargs -0 -r git ...\<close> (xargs(1)): the items of standard input end with a NUL
  (\<^verbatim>\<open>-0\<close>); with no item the command is not run (\<^verbatim>\<open>-r\<close>), otherwise it is run once
  with the items as further arguments, and a failure of the command is exit status 123.
\<close>

fun nul_items :: "string \<Rightarrow> string \<Rightarrow> string list" where
  "nul_items item [] = (if item = [] then [] else [item])"
| "nul_items item (ch # s) =
     (if ch = CHR 0x00 then item # nul_items [] s else nul_items (item @ [ch]) s)"

definition xargs :: "ign \<Rightarrow> string option \<Rightarrow> string list \<Rightarrow> string \<Rightarrow> git_world \<Rightarrow> (string \<times> string \<times> error option) \<times> git_world" where
  "xargs ig cwd args stdin w =
     (if take 3 args = [''-0'', ''-r'', ''git'']
      then (if nul_items [] stdin = [] then (([], [], None), w)
            else (case git ig cwd (drop 3 args @ nul_items [] stdin) w of
                    ((out, stderr, None), w') \<Rightarrow> ((out, stderr, None), w')
                  | ((out, stderr, Some e), w') \<Rightarrow> ((out, stderr, Some (Failure ''exit status 123'')), w')))
      else (([], ''xargs: invalid option'', Some (Failure ''exit status 1'')), w))"

definition exec :: "ign \<Rightarrow> string option \<Rightarrow> string \<Rightarrow> string list \<Rightarrow> string \<Rightarrow> git_world \<Rightarrow> (string \<times> string \<times> error option) \<times> git_world" where
  "exec ig cwd prog args stdin w =
     (if prog = ''git'' then git ig cwd args w
      else if prog = ''xargs'' then xargs ig cwd args stdin w
      else (([], [], Some (Failure ''executable file not found in $PATH'')), w))"

text \<open>
  The pipes of the three shapes the check builds: a command alone, a command after
  \<^verbatim>\<open>ChDir\<close>, and a line of two commands after \<^verbatim>\<open>ChDir\<close>, the second reading what the
  first prints and not started when the first fails.
\<close>

definition run_pipe :: "ign \<Rightarrow> pipe \<Rightarrow> git_world \<Rightarrow> (string \<times> string \<times> error option) \<times> git_world" where
  "run_pipe ig p w =
     (case p of
        Exec prog args \<Rightarrow> exec ig None prog args [] w
      | Script [ChDir dir, Exec prog args] \<Rightarrow> exec ig (Some dir) prog args [] w
      | Script [ChDir dir, Line [Exec prog1 args1, Exec prog2 args2]] \<Rightarrow>
          (case exec ig (Some dir) prog1 args1 [] w of
             ((out, stderr, Some e), w1) \<Rightarrow> (([], stderr, Some e), w1)
           | ((out, stderr, None), w1) \<Rightarrow> exec ig (Some dir) prog2 args2 out w1)
      | _ \<Rightarrow> (([], [], Some (Failure ''unsupported pipe'')), w))"

definition ref_DividedOutput :: "faults \<Rightarrow> ign \<Rightarrow> pipe \<Rightarrow> git_world \<Rightarrow> (string \<times> string \<times> error option) \<times> git_world" where
  "ref_DividedOutput F ig p w =
     (case pipe_fault F p of
        Some (stderr, e) \<Rightarrow> (([], stderr, Some e), w)
      | None \<Rightarrow> run_pipe ig p w)"

text \<open>
  The file calls. \<^verbatim>\<open>OpenFile\<close> creates a missing file when \<^verbatim>\<open>O_CREATE\<close> is given and
  fails otherwise, and empties an existing one under \<^verbatim>\<open>O_TRUNC\<close>. The first write
  through a file opened with \<^verbatim>\<open>O_APPEND\<close> goes to the end of the file, and to its start
  otherwise; it needs \<^verbatim>\<open>O_WRONLY\<close> or \<^verbatim>\<open>O_RDWR\<close>.
\<close>

definition ref_OpenFile :: "faults \<Rightarrow> string \<Rightarrow> oflag set \<Rightarrow> nat \<Rightarrow> git_world \<Rightarrow> (error + os_file) \<times> git_world" where
  "ref_OpenFile F name flags perm w =
     (case open_fault F name of
        Some e \<Rightarrow> (Inl e, w)
      | None \<Rightarrow>
          (case map_of (disk w) name of
             None \<Rightarrow>
               if O_CREATE \<in> flags
               then (Inr (File name flags), w\<lparr>disk := AList.update name [] (disk w)\<rparr>)
               else (Inl (Failure ''no such file or directory''), w)
           | Some content \<Rightarrow>
               if O_CREATE \<in> flags \<and> O_EXCL \<in> flags
               then (Inl (Failure ''file exists''), w)
               else if O_TRUNC \<in> flags
               then (Inr (File name flags), w\<lparr>disk := AList.update name [] (disk w)\<rparr>)
               else (Inr (File name flags), w)))"

definition write_bytes :: "os_file \<Rightarrow> string \<Rightarrow> git_world \<Rightarrow> git_world" where
  "write_bytes f b w =
     (case f of File name flags \<Rightarrow>
        (case map_of (disk w) name of
           None \<Rightarrow> w
         | Some content \<Rightarrow>
             w\<lparr>disk := AList.update name
                         (if O_APPEND \<in> flags then content @ b
                          else b @ drop (length b) content) (disk w)\<rparr>))"

definition ref_WriteString :: "faults \<Rightarrow> os_file \<Rightarrow> string \<Rightarrow> git_world \<Rightarrow> (nat \<times> error option) \<times> git_world" where
  "ref_WriteString F f b w =
     (case f of File name flags \<Rightarrow>
        if O_WRONLY \<notin> flags \<and> O_RDWR \<notin> flags
        then ((0, Some (Failure ''bad file descriptor'')), w)
        else (case write_fault F f of
                Some (n, e) \<Rightarrow> ((min n (length b), Some e), write_bytes f (take n b) w)
              | None \<Rightarrow> ((length b, None), write_bytes f b w)))"

definition ref_Close :: "os_file \<Rightarrow> git_world \<Rightarrow> error option \<times> git_world" where
  "ref_Close f w = (None, w)"

definition ref_env :: "faults \<Rightarrow> ign \<Rightarrow> git_world env" where
  "ref_env F ig =
     \<lparr>pipe_DividedOutput = ref_DividedOutput F ig,
      os_OpenFile = ref_OpenFile F,
      file_WriteString = ref_WriteString F,
      file_Close = ref_Close\<rparr>"

text \<open>
  An instance of \<open>ign\<close> for the examples: a rule that is a plain file name matches the
  file of that name in the root. No pathspec of the examples has a wildcard or magic
  character, so that \<open>pathspec\<close> is never asked; it is the comparison of names.
\<close>

definition plain_ign :: ign where
  "plain_ign =
     \<lparr>ignored = (\<lambda>g p. case g of None \<Rightarrow> False
                          | Some content \<Rightarrow> p \<noteq> [] \<and> p \<in> set (Split content (CHR 0x0A))),
      pathspec = (\<lambda>spec p. p = spec)\<rparr>"

definition start :: "'w \<Rightarrow> 'w sys" where
  "start w = \<lparr>world = w, calls = []\<rparr>"

definition live :: ctx where
  "live n = None"

section \<open>Example runs\<close>

text \<open>
  The inputs of the concrete runs below: a repository at \<^verbatim>\<open>/r\<close> with three committed
  files and a clean tree; the same repository without a \<^verbatim>\<open>.gitignore\<close>; the same with
  an uncommitted change; a checker with the default configuration and one that trusts
  the workspace; an input with one entry, for \<^verbatim>\<open>a.txt\<close>, and one with no entry; the
  faults that make \<^verbatim>\<open>git reset --hard\<close>, or the pruning of the index, fail; the
  fault that makes the trust registration fail; the state of the first repository once
  \<^verbatim>\<open>a.txt\<close> has been appended to its ignore rules; a repository with a committed file
  named \<^verbatim>\<open>-n\<close>, once \<^verbatim>\<open>-n\<close> and \<^verbatim>\<open>z.txt\<close> have been appended to its ignore rules;
  and a token that is cancelled once \<open>k\<close> calls have been made.
\<close>

definition ex_repo :: git_world where
  "ex_repo =
     \<lparr>repo = ''/r'',
      HEAD = [(''.gitignore'', ''build\<newline>''), (''a.txt'', ''A''), (''c.txt'', ''C'')],
      index = [(''.gitignore'', ''build\<newline>''), (''a.txt'', ''A''), (''c.txt'', ''C'')],
      disk = [(''/r/.gitignore'', ''build\<newline>''), (''/r/a.txt'', ''A''), (''/r/c.txt'', ''C'')]\<rparr>"

definition ex_repo_without_gitignore :: git_world where
  "ex_repo_without_gitignore =
     \<lparr>repo = ''/r'',
      HEAD = [(''a.txt'', ''A''), (''c.txt'', ''C'')],
      index = [(''a.txt'', ''A''), (''c.txt'', ''C'')],
      disk = [(''/r/a.txt'', ''A''), (''/r/c.txt'', ''C'')]\<rparr>"

definition ex_dirty_repo :: git_world where
  "ex_dirty_repo =
     \<lparr>repo = ''/r'',
      HEAD = [(''.gitignore'', ''build\<newline>''), (''a.txt'', ''A''), (''c.txt'', ''C'')],
      index = [(''.gitignore'', ''build\<newline>''), (''a.txt'', ''A''), (''c.txt'', ''C'')],
      disk = [(''/r/.gitignore'', ''build\<newline>''), (''/r/a.txt'', ''edited''), (''/r/c.txt'', ''C'')]\<rparr>"

definition ex_checker :: NotOwnedFile where
  "ex_checker = NewNotOwnedFile \<lparr>TrustWorkspace = False, SkipPatterns = [], Subdirectories = []\<rparr>"

definition ex_trusting_checker :: NotOwnedFile where
  "ex_trusting_checker =
     NewNotOwnedFile \<lparr>TrustWorkspace = True, SkipPatterns = [], Subdirectories = []\<rparr>"

definition ex_input :: Input where
  "ex_input = \<lparr>RepoDir = ''/r'', CodeownersEntries = [\<lparr>Pattern = ''a.txt'', Owners = [''@alice'']\<rparr>]\<rparr>"

definition ex_empty_input :: Input where
  "ex_empty_input = \<lparr>RepoDir = ''/r'', CodeownersEntries = []\<rparr>"

definition reset_fails :: faults where
  "reset_fails =
     \<lparr>pipe_fault = (\<lambda>p. if p = reset_pipe ''/r''
                          then Some (''fatal: Unable to create index.lock'', Failure ''exit status 128'')
                          else None),
      open_fault = (\<lambda>n. None), write_fault = (\<lambda>f. None)\<rparr>"

definition rm_fails :: faults where
  "rm_fails =
     \<lparr>pipe_fault = (\<lambda>p. if p = rm_pipe ''/r''
                          then Some (''fatal: Unable to create index.lock'', Failure ''exit status 123'')
                          else None),
      open_fault = (\<lambda>n. None), write_fault = (\<lambda>f. None)\<rparr>"

definition ex_appended :: "git_world sys" where
  "ex_appended =
     \<lparr>world = ex_repo\<lparr>disk := [(''/r/.gitignore'', ''build\<newline>\<newline>a.txt\<newline>''),
                                (''/r/a.txt'', ''A''), (''/r/c.txt'', ''C'')]\<rparr>,
      calls = []\<rparr>"

definition trust_fails :: faults where
  "trust_fails =
     \<lparr>pipe_fault = (\<lambda>p. if p = trust_pipe ''/r''
                          then Some (''error: could not lock config file'', Failure ''exit status 255'')
                          else None),
      open_fault = (\<lambda>n. None), write_fault = (\<lambda>f. None)\<rparr>"

definition ex_dash_repo :: "git_world sys" where
  "ex_dash_repo =
     \<lparr>world =
        \<lparr>repo = ''/r'',
         HEAD = [(''-n'', ''N''), (''.gitignore'', ''build\<newline>''), (''z.txt'', ''Z'')],
         index = [(''-n'', ''N''), (''.gitignore'', ''build\<newline>''), (''z.txt'', ''Z'')],
         disk = [(''/r/-n'', ''N''), (''/r/.gitignore'', ''build\<newline>\<newline>-n\<newline>z.txt\<newline>''),
                 (''/r/z.txt'', ''Z'')]\<rparr>,
      calls = []\<rparr>"

definition cancelled_from :: "nat \<Rightarrow> ctx" where
  "cancelled_from k n = (if k \<le> n then Some Canceled else None)"

section \<open>Properties of the pure functions\<close>

lemma patternsToBeIgnored_loop_filter:
  "patternsToBeIgnored_loop skip entries patterns =
     patterns @ filter (\<lambda>p. map_of skip p = None) (map Pattern entries)"
  by (induction entries arbitrary: patterns) simp_all

lemma map_of_None_iff_notin_keys: "map_of skip p = None \<longleftrightarrow> p \<notin> fst ` set skip"
  by (simp add: map_of_eq_None_iff)

lemma count_list_filter:
  "count_list (filter P xs) x = (if P x then count_list xs x else 0)"
  by (induction xs) auto

text \<open>
  C5. For every sequence of entries and every skip set (the keys of \<^verbatim>\<open>skipPatterns\<close>),
  \<^verbatim>\<open>patternsToBeIgnored\<close> returns the entries' patterns in entry order without the
  patterns that are members of the skip set, as the spec's contract words it. A pattern
  outside the skip set occurs in the result as often as among the entries (duplicates
  are kept), a pattern of the skip set does not occur. The function is total and returns
  a plain list: there is no error value.
\<close>

theorem patternsToBeIgnored_spec:
  "patternsToBeIgnored c entries =
     ComputeExcludedPatterns entries (fst ` set (skipPatterns c))
   \<and> count_list (patternsToBeIgnored c entries) p =
     (if p \<in> fst ` set (skipPatterns c) then 0
      else count_list (map Pattern entries) p)"
proof -
  have eq: "patternsToBeIgnored c entries =
      filter (\<lambda>p. p \<notin> fst ` set (skipPatterns c)) (map Pattern entries)"
    unfolding patternsToBeIgnored_def patternsToBeIgnored_loop_filter
    by (simp add: map_of_None_iff_notin_keys)
  show ?thesis
    unfolding eq ComputeExcludedPatterns_def by (simp add: count_list_filter)
qed

text \<open>
  C9. Once the initialisation has succeeded and the runner is back, the process exits
  with code 2 exactly when the context carries an error, and with code 3 exactly when the
  context carries no error and \<^verbatim>\<open>ShouldExitWithCheckFailure()\<close> is true: cancellation
  wins over the severity decision when both are present.
\<close>

theorem Run_exit_codes:
  assumes "initErr = None" and "checksErr = None" and "entriesErr = None" and "absErr = None"
  shows "(Run initErr checksErr entriesErr absErr ctxErr fail = Exit 2 \<longleftrightarrow> ctxErr \<noteq> None)
       \<and> (Run initErr checksErr entriesErr absErr ctxErr fail = Exit 3 \<longleftrightarrow> ctxErr = None \<and> fail)
       \<and> (Run initErr checksErr entriesErr absErr ctxErr fail = Returns \<longleftrightarrow> ctxErr = None \<and> \<not> fail)"
  using assms by (simp add: Run_def exitOnError_def)

theorem Run_exit_codes_witness:
  "Run None None None None (Some Canceled) True = Exit 2
   \<and> Run None None None None None True = Exit 3
   \<and> Run None None None None None False = Returns"
  using Run_exit_codes [of None None None None "Some Canceled" True]
    Run_exit_codes [of None None None None None True]
    Run_exit_codes [of None None None None None False]
  by simp

section \<open>The control flow of the check, in any environment\<close>

text \<open>
  The lemmas and theorems of this section hold for every environment \<open>E\<close>: whatever the
  subprocesses and the file calls return and do.
\<close>

lemma DividedOutput_calls:
  "DividedOutput E p s = (r, s') \<Longrightarrow> calls s' = calls s @ [Cmd p]"
  by (auto simp: DividedOutput_def split: prod.splits)

lemma GitResetCurrentBranch_calls:
  "GitResetCurrentBranch E c d s = (r, s') \<Longrightarrow> calls s' = calls s @ [Cmd (reset_pipe d)]"
  by (auto simp: GitResetCurrentBranch_def split: prod.splits option.splits
      dest: DividedOutput_calls)

lemma GitCheckStatus_calls:
  "GitCheckStatus E c d s = (r, s') \<Longrightarrow> calls s' = calls s @ [Cmd (status_pipe d)]"
  by (auto simp: GitCheckStatus_def split: prod.splits option.splits dest: DividedOutput_calls)

lemma trustWorkspaceIfNeeded_calls:
  "trustWorkspaceIfNeeded E c d s = (r, s') \<Longrightarrow>
     calls s' = calls s @ (if trustWorkspace c then [Cmd (trust_pipe d)] else [])"
  by (auto simp: trustWorkspaceIfNeeded_def split: prod.splits option.splits if_splits
      dest: DividedOutput_calls)

lemma Check_steps_no_issue_on_error:
  "Check_steps E c inp ps b s = ((out, err), s') \<Longrightarrow> err \<noteq> None \<Longrightarrow> out = empty_Output"
  by (auto simp: Check_steps_def Let_def split: prod.splits option.splits sum.splits if_splits)

lemma Check_deferred_no_issue_on_error:
  "Check_deferred E c inp r = ((out, err), s') \<Longrightarrow> err \<noteq> None \<Longrightarrow> out = empty_Output"
  by (auto simp: Check_deferred_def split: prod.splits if_splits)

lemma Check_deferred_calls:
  "Check_deferred E c inp (r, s) = (r', s') \<Longrightarrow>
     calls s' = calls s @ [Cmd (reset_pipe (RepoDir inp))]"
  by (auto simp: Check_deferred_def split: prod.splits if_splits
      dest: GitResetCurrentBranch_calls)

text \<open>
  C4, as the code has it. With no ownership entry, \<^verbatim>\<open>Check\<close> returns the state it was
  given, whatever the environment, the repository and the token are: the log of calls
  has not grown, so no subprocess was run and no file was opened. When the token is not
  cancelled at entry, it returns exactly one issue, the message about the empty
  CODEOWNERS file, and a nil error.
\<close>

theorem Check_empty_entries:
  assumes "CodeownersEntries inp = []"
  shows "snd (Check E c cx inp s) = s
       \<and> (\<not> ShouldExit cx s \<longrightarrow>
            fst (Check E c cx inp s) = (\<lparr>Issues = [\<lparr>Message = empty_msg\<rparr>]\<rparr>, None))"
  using assms by (simp add: Check_def Output_of_def ReportIssue_def new_OutputBuilder_def)

theorem Check_empty_entries_witness:
  "CodeownersEntries ex_empty_input = [] \<and> \<not> ShouldExit live (start ex_repo)
   \<and> Check (ref_env no_faults plain_ign) ex_checker live ex_empty_input (start ex_repo)
       = ((\<lparr>Issues = [\<lparr>Message = empty_msg\<rparr>]\<rparr>, None), start ex_repo)"
proof -
  have h1: "CodeownersEntries ex_empty_input = []" by (simp add: ex_empty_input_def)
  have h2: "\<not> ShouldExit live (start ex_repo)"
    by (simp add: ShouldExit_def ctx_Err_def live_def)
  show ?thesis
    using h1 h2
      Check_empty_entries [OF h1, of "ref_env no_faults plain_ign" ex_checker live "start ex_repo"]
    by (simp add: prod_eq_iff)
qed

text \<open>
  C4, as the claim states it, fails when the token is already cancelled at entry: with no
  ownership entry, \<^verbatim>\<open>Check\<close> returns no issue and the token's error.
\<close>

theorem Check_empty_entries_cancelled_counterexample:
  "CodeownersEntries ex_empty_input = []
   \<and> Check (ref_env no_faults plain_ign) ex_checker (cancelled_from 0) ex_empty_input (start ex_repo)
       = ((\<lparr>Issues = []\<rparr>, Some Canceled), start ex_repo)"
  by code_simp

text \<open>
  C3, as the code has it. Take at least one ownership entry and a repository with an
  uncommitted change: the status query, in the state \<open>s1\<close> that the trust step leaves,
  returns a non-empty output. Then, in every environment and for every token,
  \<^verbatim>\<open>Check\<close> returns in the state it was given, in \<open>s1\<close> or in the state \<open>s2\<close> that the
  status query leaves, and the calls made up to there are the trust registration (if
  configured) and the status query: the ignore-rules file is not opened or written, and
  the commands that change the index or the working tree (\<^verbatim>\<open>git rm\<close>,
  \<^verbatim>\<open>git reset\<close>) are not run. When the token is not cancelled at entry and the trust
  step returns no error, \<^verbatim>\<open>Check\<close> returns exactly one issue, the dirty-tree message,
  and a nil error.
\<close>

theorem Check_dirty_tree:
  assumes "CodeownersEntries inp \<noteq> []"
    and "trustWorkspaceIfNeeded E c (RepoDir inp) s = (r1, s1)"
    and "GitCheckStatus E c (RepoDir inp) s1 = (Inr statusOut, s2)"
    and "statusOut \<noteq> []"
  shows "(snd (Check E c cx inp s) = s \<or> snd (Check E c cx inp s) = s1
            \<or> snd (Check E c cx inp s) = s2)
       \<and> calls s1 = calls s @ (if trustWorkspace c then [Cmd (trust_pipe (RepoDir inp))] else [])
       \<and> calls s2 = calls s @ (if trustWorkspace c then [Cmd (trust_pipe (RepoDir inp))] else [])
                      @ [Cmd (status_pipe (RepoDir inp))]
       \<and> (\<not> ShouldExit cx s \<and> r1 = None \<longrightarrow>
            Check E c cx inp s = ((\<lparr>Issues = [\<lparr>Message = dirty_msg\<rparr>]\<rparr>, None), s2))"
  using assms trustWorkspaceIfNeeded_calls [OF assms(2)] GitCheckStatus_calls [OF assms(3)]
  by (auto simp: Check_def Output_of_def ReportIssue_def new_OutputBuilder_def
      split: option.splits)

theorem Check_dirty_tree_witness:
  "CodeownersEntries ex_input \<noteq> [] \<and> \<not> ShouldExit live (start ex_dirty_repo)
   \<and> trustWorkspaceIfNeeded (ref_env no_faults plain_ign) ex_trusting_checker (RepoDir ex_input)
         (start ex_dirty_repo)
       = (None, \<lparr>world = ex_dirty_repo, calls = [Cmd (trust_pipe ''/r'')]\<rparr>)
   \<and> GitCheckStatus (ref_env no_faults plain_ign) ex_trusting_checker (RepoDir ex_input)
         \<lparr>world = ex_dirty_repo, calls = [Cmd (trust_pipe ''/r'')]\<rparr>
       = (Inr '' M a.txt\<newline>'',
          \<lparr>world = ex_dirty_repo, calls = [Cmd (trust_pipe ''/r''), Cmd (status_pipe ''/r'')]\<rparr>)
   \<and> Check (ref_env no_faults plain_ign) ex_trusting_checker live ex_input (start ex_dirty_repo)
       = ((\<lparr>Issues = [\<lparr>Message = dirty_msg\<rparr>]\<rparr>, None),
          \<lparr>world = ex_dirty_repo, calls = [Cmd (trust_pipe ''/r''), Cmd (status_pipe ''/r'')]\<rparr>)"
proof -
  have h1: "CodeownersEntries ex_input \<noteq> []" by (simp add: ex_input_def)
  have h2: "\<not> ShouldExit live (start ex_dirty_repo)"
    by (simp add: ShouldExit_def ctx_Err_def live_def)
  have h3: "trustWorkspaceIfNeeded (ref_env no_faults plain_ign) ex_trusting_checker
      (RepoDir ex_input) (start ex_dirty_repo)
      = (None, \<lparr>world = ex_dirty_repo, calls = [Cmd (trust_pipe ''/r'')]\<rparr>)"
    by code_simp
  have h4: "GitCheckStatus (ref_env no_faults plain_ign) ex_trusting_checker (RepoDir ex_input)
      \<lparr>world = ex_dirty_repo, calls = [Cmd (trust_pipe ''/r'')]\<rparr>
      = (Inr '' M a.txt\<newline>'',
         \<lparr>world = ex_dirty_repo, calls = [Cmd (trust_pipe ''/r''), Cmd (status_pipe ''/r'')]\<rparr>)"
    by code_simp
  have h5: "'' M a.txt\<newline>'' \<noteq> []" by simp
  show ?thesis
    using h1 h2 h3 h4 Check_dirty_tree [OF h1 h3 h4 h5, of live] by simp
qed

text \<open>
  C3, as the claim states it, fails on a repository with an uncommitted change and one
  ownership entry in two runs. In the first the token is already cancelled at entry:
  \<^verbatim>\<open>Check\<close> returns no issue and the token's error. In the second the workspace is to
  be trusted and the registration fails: \<^verbatim>\<open>Check\<close> returns no issue and that error.
\<close>

theorem Check_dirty_tree_counterexample:
  "CodeownersEntries ex_input \<noteq> []
   \<and> git_status plain_ign ex_dirty_repo = '' M a.txt\<newline>''
   \<and> Check (ref_env no_faults plain_ign) ex_checker (cancelled_from 0) ex_input (start ex_dirty_repo)
       = ((\<lparr>Issues = []\<rparr>, Some Canceled), start ex_dirty_repo)
   \<and> fst (Check (ref_env trust_fails plain_ign) ex_trusting_checker live ex_input
             (start ex_dirty_repo))
       = (\<lparr>Issues = []\<rparr>,
          Some (Wrap (Failure ''exit status 255'') ''error: could not lock config file''))"
  by code_simp

text \<open>
  C10. Whenever \<^verbatim>\<open>Check\<close> returns an error that is not nil, the output it returns has no
  issue, in every environment and on every path: the returns before the \<^verbatim>\<open>defer\<close>
  statement, the steps after it, and the deferred function, which empties the output when
  it finds an error.
\<close>

theorem Check_error_without_issues:
  assumes "snd (fst (Check E c cx inp s)) \<noteq> None"
  shows "Issues (fst (fst (Check E c cx inp s))) = []"
proof -
  obtain out err s' where r: "Check E c cx inp s = ((out, err), s')"
    by (metis prod.collapse)
  with assms have e: "err \<noteq> None" by simp
  have "out = empty_Output"
    using r e
    by (auto simp: Check_def Let_def split: if_splits prod.splits option.splits sum.splits
        dest: Check_deferred_no_issue_on_error)
  then show ?thesis using r by (simp add: empty_Output_def)
qed

theorem Check_error_without_issues_witness:
  "snd (fst (Check (ref_env rm_fails plain_ign) ex_checker live ex_input (start ex_repo))) \<noteq> None
   \<and> Issues (fst (fst (Check (ref_env rm_fails plain_ign) ex_checker live ex_input (start ex_repo)))) = []"
proof -
  have h: "snd (fst (Check (ref_env rm_fails plain_ign) ex_checker live ex_input (start ex_repo))) \<noteq> None"
    by code_simp
  show ?thesis using h Check_error_without_issues [OF h] by simp
qed

text \<open>
  C8, as the code has it. \<^verbatim>\<open>Check\<close> reads the cancellation token once, at entry: when
  the token is cancelled there, it returns the token's error and an empty output and
  makes no call; and the result of \<^verbatim>\<open>Check\<close> depends on the token through that one
  reading only (two tokens that agree at entry give the same run), so the token is not
  consulted again before the subprocesses that follow.
\<close>

theorem Check_cancellation_at_entry:
  "(ShouldExit cx s \<longrightarrow> Check E c cx inp s = ((empty_Output, ctx_Err cx s), s))
   \<and> (ctx_Err cx s = ctx_Err cx' s \<longrightarrow> Check E c cx inp s = Check E c cx' inp s)"
  by (simp add: Check_def ShouldExit_def)

theorem Check_cancellation_at_entry_witness:
  "ShouldExit (cancelled_from 0) (start ex_repo)
   \<and> Check (ref_env no_faults plain_ign) ex_checker (cancelled_from 0) ex_input (start ex_repo)
       = ((empty_Output, Some Canceled), start ex_repo)
   \<and> ctx_Err (cancelled_from 1) (start ex_repo) = ctx_Err live (start ex_repo)
   \<and> Check (ref_env no_faults plain_ign) ex_checker (cancelled_from 1) ex_input (start ex_repo)
       = Check (ref_env no_faults plain_ign) ex_checker live ex_input (start ex_repo)"
proof -
  have h1: "ShouldExit (cancelled_from 0) (start ex_repo)"
    by (simp add: ShouldExit_def ctx_Err_def cancelled_from_def)
  have h2: "ctx_Err (cancelled_from 1) (start ex_repo) = ctx_Err live (start ex_repo)"
    by (simp add: ctx_Err_def cancelled_from_def live_def start_def)
  have e: "ctx_Err (cancelled_from 0) (start ex_repo) = Some Canceled"
    by (simp add: ctx_Err_def cancelled_from_def)
  show ?thesis
    using h1 h2 e
      Check_cancellation_at_entry [of "cancelled_from 0" "start ex_repo"
        "ref_env no_faults plain_ign" ex_checker ex_input "cancelled_from 0"]
      Check_cancellation_at_entry [of "cancelled_from 1" "start ex_repo"
        "ref_env no_faults plain_ign" ex_checker ex_input live]
    by simp
qed

text \<open>
  C8, as the claim states it, fails. The token below is live at entry and cancelled as
  soon as one call has been made, that is, while \<^verbatim>\<open>git status\<close> runs and before every
  later call. \<^verbatim>\<open>Check\<close> does not return the token's error: it goes on to append to the
  ignore-rules file, to prune the index, to list the files and to reset the branch, and
  returns a nil error.
\<close>

theorem Check_late_cancellation_counterexample:
  "\<not> ShouldExit (cancelled_from 1) (start ex_repo)
   \<and> cancelled_from 1 1 = Some Canceled
   \<and> snd (fst (Check (ref_env no_faults plain_ign) ex_checker (cancelled_from 1) ex_input
                 (start ex_repo))) = None
   \<and> drop 1 (calls (snd (Check (ref_env no_faults plain_ign) ex_checker (cancelled_from 1) ex_input
                 (start ex_repo))))
       = [Opened ''/r/.gitignore'' gitignore_flags 420,
          Written (File ''/r/.gitignore'' gitignore_flags) ''\<newline>a.txt\<newline>'',
          Closed (File ''/r/.gitignore'' gitignore_flags),
          Cmd (rm_pipe ''/r''), Cmd (ls_pipe ex_checker ''/r''), Cmd (reset_pipe ''/r'')]"
  by code_simp

text \<open>
  Towards C1: what the code does do. Once the status query has returned an empty output,
  the last call of \<^verbatim>\<open>Check\<close> is the hard reset, on every path; and when the steps
  before it ended with an error, the error returned is the aggregate of that error and,
  if the reset failed too, the reset's error.
\<close>

lemma Check_clean_tree_resets_last:
  assumes "CodeownersEntries inp \<noteq> []" and "\<not> ShouldExit cx s"
    and "trustWorkspaceIfNeeded E c (RepoDir inp) s = (None, s1)"
    and "GitCheckStatus E c (RepoDir inp) s1 = (Inr [], s2)"
  shows "last (calls (snd (Check E c cx inp s))) = Cmd (reset_pipe (RepoDir inp))"
proof -
  obtain r3 s3 where k: "Check_steps E c inp (patternsToBeIgnored c (CodeownersEntries inp))
      new_OutputBuilder s2 = (r3, s3)"
    by (metis prod.collapse)
  obtain r4 s4 where d: "Check_deferred E c inp (r3, s3) = (r4, s4)"
    by (metis prod.collapse)
  have "Check E c cx inp s = (r4, s4)"
    using assms k d by (simp add: Check_def)
  then show ?thesis using Check_deferred_calls [OF d] by simp
qed

lemma Check_deferred_combines:
  assumes "GitResetCurrentBranch E c (RepoDir inp) s = (errReset, s')"
    and "\<And>es. e \<noteq> MultiError es"
  shows "Check_deferred E c inp ((out, Some e), s)
           = ((empty_Output, Some (MultiError (e # members errReset))), s')"
  using assms
  by (cases e) (auto simp: Check_deferred_def ErrorOrNil_def multierror_Append_def)

text \<open>
  When the steps ended without an error, the deferred function returns their results as
  they are, whatever the reset returned: its error is not looked at.
\<close>

lemma Check_deferred_without_error:
  "Check_deferred E c inp ((out, None), s)
     = ((out, None), snd (GitResetCurrentBranch E c (RepoDir inp) s))"
  by (simp add: Check_deferred_def split: prod.splits)

text \<open>
  C1, at the input where the code departs from it. The repository is clean, there is one
  ownership entry, every step succeeds, and the hard reset fails (the last call of the
  run is the reset, and the environment makes it fail). The claim has the failure of the
  restoration reported; \<^verbatim>\<open>Check\<close> returns a nil error, and the ignore-rules file keeps
  the appended pattern.
\<close>

theorem Check_drops_reset_failure:
  "last (calls (snd (Check (ref_env reset_fails plain_ign) ex_checker live ex_input (start ex_repo))))
     = Cmd (reset_pipe ''/r'')
   \<and> pipe_fault reset_fails (reset_pipe ''/r'')
       = Some (''fatal: Unable to create index.lock'', Failure ''exit status 128'')
   \<and> snd (fst (Check (ref_env reset_fails plain_ign) ex_checker live ex_input (start ex_repo))) = None
   \<and> gitignore_of (world (snd (Check (ref_env reset_fails plain_ign) ex_checker live ex_input
        (start ex_repo)))) = Some ''build\<newline>\<newline>a.txt\<newline>''"
  by code_simp

section \<open>The check in the reference environment\<close>

subsection \<open>The ignore-rules file\<close>

lemma gitignore_content_eq:
  "gitignore_content patterns = [CHR 0x0A] @ concat (map (\<lambda>p. p @ [CHR 0x0A]) patterns)"
proof -
  have "fold (\<lambda>p content. content @ (p @ [CHR 0x0A])) ps acc
          = acc @ concat (map (\<lambda>p. p @ [CHR 0x0A]) ps)" for ps and acc :: string
    by (induction ps arbitrary: acc) simp_all
  then show ?thesis by (simp add: gitignore_content_def)
qed

text \<open>
  C6. When \<^verbatim>\<open>AppendToGitignoreFile\<close> succeeds on an existing ignore-rules file, the
  file holds its previous content, unchanged, followed by one line feed and then every
  pattern, in order, each followed by a line feed: the block starts on a line of its
  own whether or not the previous content ended with a line feed. This is done with one
  open, one write and one close; no other file, the index and the commit are not touched.
\<close>

theorem AppendToGitignoreFile_appends:
  assumes "AppendToGitignoreFile (ref_env F ig) c repoDir patterns s = (None, s')"
    and "map_of (disk (world s)) (path_Join repoDir ''.gitignore'') = Some old"
  shows "map_of (disk (world s')) (path_Join repoDir ''.gitignore'')
           = Some (old @ [CHR 0x0A] @ concat (map (\<lambda>p. p @ [CHR 0x0A]) patterns))
       \<and> (\<forall>name. name \<noteq> path_Join repoDir ''.gitignore'' \<longrightarrow>
             map_of (disk (world s')) name = map_of (disk (world s)) name)
       \<and> index (world s') = index (world s) \<and> HEAD (world s') = HEAD (world s)
       \<and> calls s' = calls s @
           [Opened (path_Join repoDir ''.gitignore'') gitignore_flags 420,
            Written (File (path_Join repoDir ''.gitignore'') gitignore_flags)
              ([CHR 0x0A] @ concat (map (\<lambda>p. p @ [CHR 0x0A]) patterns)),
            Closed (File (path_Join repoDir ''.gitignore'') gitignore_flags)]"
  using assms
  by (auto simp: AppendToGitignoreFile_def OpenFile_def WriteString_def Close_def ref_env_def
      ref_OpenFile_def ref_WriteString_def write_bytes_def ref_Close_def gitignore_flags_def
      gitignore_content_eq update_conv'
      split: option.splits prod.splits sum.splits if_splits)

theorem AppendToGitignoreFile_appends_witness:
  "fst (AppendToGitignoreFile (ref_env no_faults plain_ign) ex_checker ''/r'' [''a.txt'', ''docs'']
          (start ex_repo)) = None
   \<and> map_of (disk (world (start ex_repo))) ''/r/.gitignore'' = Some ''build\<newline>''
   \<and> map_of (disk (world (snd (AppendToGitignoreFile (ref_env no_faults plain_ign) ex_checker ''/r''
          [''a.txt'', ''docs''] (start ex_repo))))) ''/r/.gitignore''
       = Some ''build\<newline>\<newline>a.txt\<newline>docs\<newline>''"
proof -
  let ?r = "AppendToGitignoreFile (ref_env no_faults plain_ign) ex_checker ''/r''
      [''a.txt'', ''docs''] (start ex_repo)"
  have f: "fst ?r = None" by code_simp
  have h1: "?r = (None, snd ?r)" using f by (simp add: prod_eq_iff)
  have j: "path_Join ''/r'' ''.gitignore'' = ''/r/.gitignore''" by (simp add: path_Join_def)
  have h2: "map_of (disk (world (start ex_repo))) (path_Join ''/r'' ''.gitignore'') = Some ''build\<newline>''"
    by (simp add: j start_def ex_repo_def)
  show ?thesis
    using f h2 AppendToGitignoreFile_appends [OF h1 h2] by (simp add: j)
qed

subsection \<open>Pruning the index\<close>

lemma nul_items_app:
  "CHR 0x00 \<notin> set q \<Longrightarrow>
     nul_items item (q @ CHR 0x00 # rest) = (item @ q) # nul_items [] rest"
  by (induction q arbitrary: item) auto

lemma nul_items_concat:
  "list_all (\<lambda>p. CHR 0x00 \<notin> set p) ps \<Longrightarrow>
     nul_items [] (concat (map (\<lambda>p. p @ [CHR 0x00]) ps)) = ps"
  by (induction ps) (simp_all add: nul_items_app)

lemma concat_nul_empty:
  "concat (map (\<lambda>p. p @ [CHR 0x00]) ps) = [] \<longleftrightarrow> ps = []"
  by (cases ps) simp_all

lemma dashes_not_plain: "\<not> option_like p \<Longrightarrow> p \<noteq> ''--''"
  by (auto simp: option_like_def)

lemma cached_args:
  assumes "list_all (\<lambda>p. \<not> option_like p) ps"
  shows "options_of (''--cached'' # ps) = [''--cached'']"
    and "pathspecs_of (''--cached'' # ps) = ps"
proof -
  have nd: "\<forall>p \<in> set ps. p \<noteq> ''--''"
    using assms by (auto simp: list_all_iff dest: dashes_not_plain)
  then have tw: "takeWhile (\<lambda>a. a \<noteq> ''--'') ps = ps" and dw: "dropWhile (\<lambda>a. a \<noteq> ''--'') ps = []"
    by simp_all
  have f1: "filter option_like ps = []"
    using assms by (simp add: list_all_iff filter_empty_conv)
  have f2: "filter (\<lambda>a. \<not> option_like a) ps = ps"
    using assms by (simp add: list_all_iff filter_id_conv)
  have oc: "option_like ''--cached''" by (simp add: option_like_def)
  show "options_of (''--cached'' # ps) = [''--cached'']"
    by (simp add: options_of_def tw f1 oc)
  show "pathspecs_of (''--cached'' # ps) = ps"
    by (simp add: pathspecs_of_def tw dw f2 oc)
qed

lemma hit_plain:
  assumes "list_all (plain_path w) ps" and "q \<in> fst ` set (index w)"
  shows "list_ex (\<lambda>spec. matches ig spec q) ps \<longleftrightarrow> q \<in> set ps"
  using assms
  by (auto simp: list_ex_iff list_all_iff plain_path_def matches_def below_def)

lemma git_rm_cached_plain:
  assumes "ps \<noteq> []" and "list_all (plain_path w) ps" and "set ps \<subseteq> fst ` set (index w)"
    and "git_rm ig (''--cached'' # ps) w = ((out, stderr, None), w')"
  shows "w' = w\<lparr>index := filter (\<lambda>e. fst e \<notin> set ps) (index w), disk := disk w\<rparr>"
proof -
  have np: "list_all (\<lambda>p. \<not> option_like p) ps"
    using assms(2) by (simp add: list_all_iff plain_path_def)
  have flt: "filter (\<lambda>e. \<not> list_ex (\<lambda>spec. matches ig spec (fst e)) ps) (index w)
      = filter (\<lambda>e. fst e \<notin> set ps) (index w)"
    by (rule filter_cong) (auto simp: hit_plain [OF assms(2)])
  show ?thesis
    using assms(4)
    by (simp add: git_rm_def cached_args [OF np] Let_def rm_options_def flt split: if_splits)
qed


lemma run_rm_pipe:
  assumes "list_all (\<lambda>p. CHR 0x00 \<notin> set p) (ls_files_ci ig w)"
  shows "run_pipe ig (rm_pipe (repo w)) w =
      (if ls_files_ci ig w = [] then (([], [], None), w)
       else (case git_rm ig (''--cached'' # ls_files_ci ig w) w of
               ((out, stderr, None), w') \<Rightarrow> ((out, stderr, None), w')
             | ((out, stderr, Some e), w') \<Rightarrow> ((out, stderr, Some (Failure ''exit status 123'')), w')))"
  by (simp add: rm_pipe_def run_pipe_def exec_def git_def xargs_def
      nul_items_concat [OF assms] concat_nul_empty)

text \<open>
  C7, as the code has it. The source hands the listed paths to \<^verbatim>\<open>git rm --cached\<close> as
  plain arguments, with no \<^verbatim>\<open>--\<close> before them. When \<^verbatim>\<open>GitRemoveIgnoredFiles\<close>
  succeeds in the repository (whose paths, as file names, hold no NUL) and every tracked
  path that the active ignore rules match is one that \<^verbatim>\<open>git rm\<close> reads as the name of
  that entry (\<open>plain_path\<close>), the index it leaves is the index it found without the
  entries whose path the ignore rules match, the other entries being kept in order; the
  files on disk and the commit are as they were.
\<close>

theorem GitRemoveIgnoredFiles_index_only:
  assumes "GitRemoveIgnoredFiles (ref_env F ig) c (repo (world s)) s = (None, s')"
    and "list_all (\<lambda>p. CHR 0x00 \<notin> set p) (map fst (index (world s)))"
    and "list_all (plain_path (world s)) (ls_files_ci ig (world s))"
  shows "index (world s')
           = filter (\<lambda>e. \<not> ignored ig (gitignore_of (world s)) (fst e)) (index (world s))
       \<and> disk (world s') = disk (world s) \<and> HEAD (world s') = HEAD (world s)"
proof -
  let ?w = "world s"
  let ?ps = "ls_files_ci ig ?w"
  have nul: "list_all (\<lambda>p. CHR 0x00 \<notin> set p) ?ps"
    using assms(2) by (auto simp: ls_files_ci_def list_all_iff)
  have tracked: "set ?ps \<subseteq> fst ` set (index ?w)"
    by (auto simp: ls_files_ci_def)
  have flt: "filter (\<lambda>e. fst e \<notin> set ?ps) (index ?w)
      = filter (\<lambda>e. \<not> ignored ig (gitignore_of ?w) (fst e)) (index ?w)"
    by (rule filter_cong) (auto simp: ls_files_ci_def)
  have none: "?ps = [] \<Longrightarrow>
      filter (\<lambda>e. \<not> ignored ig (gitignore_of ?w) (fst e)) (index ?w) = index ?w"
    by (auto simp: ls_files_ci_def filter_empty_conv filter_id_conv)
  obtain r w' where run: "run_pipe ig (rm_pipe (repo ?w)) ?w = (r, w')"
    by (metis prod.collapse)
  have res: "pipe_fault F (rm_pipe (repo ?w)) = None \<and> snd (snd r) = None \<and> world s' = w'"
    using assms(1) run
    by (auto simp: GitRemoveIgnoredFiles_def DividedOutput_def ref_env_def ref_DividedOutput_def
        split: option.splits prod.splits)
  show ?thesis
  proof (cases "?ps = []")
    case True
    then have "w' = ?w" using run by (simp add: run_rm_pipe [OF nul])
    then show ?thesis using res none [OF True] by simp
  next
    case False
    obtain out stderr e w2 where g: "git_rm ig (''--cached'' # ?ps) ?w = ((out, stderr, e), w2)"
      by (metis prod.collapse)
    have "e = None \<and> w' = w2"
      using run res False g by (auto simp: run_rm_pipe [OF nul] split: option.splits)
    then have "w' = ?w\<lparr>index := filter (\<lambda>e. fst e \<notin> set ?ps) (index ?w), disk := disk ?w\<rparr>"
      using git_rm_cached_plain [OF False assms(3) tracked, of ig out stderr w2] g by simp
    then show ?thesis using res flt by simp
  qed
qed

theorem GitRemoveIgnoredFiles_index_only_witness:
  "fst (GitRemoveIgnoredFiles (ref_env no_faults plain_ign) ex_checker (repo (world ex_appended))
          ex_appended) = None
   \<and> list_all (\<lambda>p. CHR 0x00 \<notin> set p) (map fst (index (world ex_appended)))
   \<and> list_all (plain_path (world ex_appended)) (ls_files_ci plain_ign (world ex_appended))
   \<and> ls_files_ci plain_ign (world ex_appended) = [''a.txt'']
   \<and> index (world (snd (GitRemoveIgnoredFiles (ref_env no_faults plain_ign) ex_checker
         (repo (world ex_appended)) ex_appended)))
       = [(''.gitignore'', ''build\<newline>''), (''c.txt'', ''C'')]
   \<and> disk (world (snd (GitRemoveIgnoredFiles (ref_env no_faults plain_ign) ex_checker
         (repo (world ex_appended)) ex_appended))) = disk (world ex_appended)"
proof -
  let ?r = "GitRemoveIgnoredFiles (ref_env no_faults plain_ign) ex_checker
      (repo (world ex_appended)) ex_appended"
  have f: "fst ?r = None" by code_simp
  have h1: "?r = (None, snd ?r)" using f by (simp add: prod_eq_iff)
  have h2: "list_all (\<lambda>p. CHR 0x00 \<notin> set p) (map fst (index (world ex_appended)))"
    by code_simp
  have l: "ls_files_ci plain_ign (world ex_appended) = [''a.txt'']" by code_simp
  have h3: "list_all (plain_path (world ex_appended)) (ls_files_ci plain_ign (world ex_appended))"
    by code_simp
  have e: "filter (\<lambda>e. \<not> ignored plain_ign (gitignore_of (world ex_appended)) (fst e))
      (index (world ex_appended)) = [(''.gitignore'', ''build\<newline>''), (''c.txt'', ''C'')]"
    by code_simp
  show ?thesis
    using f h2 h3 l GitRemoveIgnoredFiles_index_only [OF h1 h2 h3] by (simp add: e)
qed

text \<open>
  C7, as the claim states it, fails in a repository that tracks a file named \<^verbatim>\<open>-n\<close>.
  With \<^verbatim>\<open>-n\<close> and \<^verbatim>\<open>z.txt\<close> both tracked and ignored, the command that runs is
  \<^verbatim>\<open>git rm --cached -n z.txt\<close>: a dry run. \<^verbatim>\<open>GitRemoveIgnoredFiles\<close> returns a nil
  error and both paths are still in the index.
\<close>

theorem GitRemoveIgnoredFiles_dash_counterexample:
  "ls_files_ci plain_ign (world ex_dash_repo) = [''-n'', ''z.txt'']
   \<and> fst (GitRemoveIgnoredFiles (ref_env no_faults plain_ign) ex_checker ''/r'' ex_dash_repo) = None
   \<and> index (world (snd (GitRemoveIgnoredFiles (ref_env no_faults plain_ign) ex_checker ''/r''
        ex_dash_repo)))
       = [(''-n'', ''N''), (''.gitignore'', ''build\<newline>''), (''z.txt'', ''Z'')]"
  by code_simp

subsection \<open>Restoration\<close>

text \<open>A clean status: the index is the commit, and every committed file is on disk.\<close>

lemma status_line_clean:
  assumes "status_line ig w p = []"
  shows "map_of (index w) p = map_of (HEAD w) p"
    and "map_of (index w) p \<noteq> None \<Longrightarrow>
           map_of (disk w) (path_Join (repo w) p) = map_of (index w) p"
  using assms by (auto simp: status_line_def Let_def split: if_splits)

lemma git_status_clean_line:
  "git_status ig w = [] \<Longrightarrow> p \<in> set (status_paths w) \<Longrightarrow> status_line ig w p = []"
  by (simp add: git_status_def)

lemma not_status_path:
  "p \<notin> set (status_paths w) \<Longrightarrow> map_of (index w) p = None \<and> map_of (HEAD w) p = None"
  by (auto simp: status_paths_def map_of_eq_None_iff)

lemma clean_index: "git_status ig w = [] \<Longrightarrow> map_of (index w) = map_of (HEAD w)"
proof
  fix p assume c: "git_status ig w = []"
  show "map_of (index w) p = map_of (HEAD w) p"
  proof (cases "p \<in> set (status_paths w)")
    case True
    then show ?thesis using c git_status_clean_line status_line_clean(1) by blast
  next
    case False
    then show ?thesis by (simp add: not_status_path)
  qed
qed

lemma clean_disk:
  assumes "git_status ig w = []" and "map_of (HEAD w) p \<noteq> None"
  shows "map_of (disk w) (path_Join (repo w) p) = map_of (HEAD w) p"
proof -
  have i: "map_of (index w) p = map_of (HEAD w) p" using assms(1) by (simp add: clean_index)
  have "p \<in> set (status_paths w)"
  proof (rule ccontr)
    assume "p \<notin> set (status_paths w)"
    then have "map_of (HEAD w) p = None" by (simp add: not_status_path)
    with assms(2) show False by simp
  qed
  then have "status_line ig w p = []" using assms(1) by (simp add: git_status_clean_line)
  then show ?thesis using status_line_clean(2) [of ig w p] i assms(2) by simp
qed

text \<open>The hard reset: the index and the committed files are those of the commit.\<close>

lemma path_Join_inj: "path_Join dir p = path_Join dir q \<Longrightarrow> p = q"
  by (simp add: path_Join_def split: if_splits)

lemma reset_fold:
  "map_of (fold (\<lambda>p dk. case h p of
                          Some content \<Rightarrow> AList.update (path_Join dir p) content dk
                        | None \<Rightarrow> AList.delete (path_Join dir p) dk) ps dk) (path_Join dir q)
     = (if q \<in> set ps then h q else map_of dk (path_Join dir q))"
proof (induction ps arbitrary: dk rule: rev_induct)
  case Nil
  then show ?case by simp
next
  case (snoc a ps)
  then show ?case
    by (auto simp: update_conv' delete_conv' dest: path_Join_inj split: option.splits)
qed

lemma git_reset_hard_result:
  "index (git_reset_hard w) = HEAD w"
  "HEAD (git_reset_hard w) = HEAD w"
  "repo (git_reset_hard w) = repo w"
  "map_of (HEAD w) p \<noteq> None \<Longrightarrow>
     map_of (disk (git_reset_hard w)) (path_Join (repo w) p) = map_of (HEAD w) p"
  by (auto simp: git_reset_hard_def reset_fold map_of_eq_None_iff)

text \<open>No command changes the commit or moves the repository.\<close>

lemma git_keeps:
  "git ig cwd args w = (r, w') \<Longrightarrow> repo w' = repo w \<and> HEAD w' = HEAD w"
  by (auto simp: git_def git_rm_def Let_def git_reset_hard_def split: if_splits)

lemma exec_keeps:
  "exec ig cwd prog args stdin w = (r, w') \<Longrightarrow> repo w' = repo w \<and> HEAD w' = HEAD w"
  by (auto simp: exec_def xargs_def split: if_splits prod.splits option.splits dest: git_keeps)

lemma ref_trust_world:
  "trustWorkspaceIfNeeded (ref_env F ig) c d s = (r, s') \<Longrightarrow> world s' = world s"
  by (auto simp: trustWorkspaceIfNeeded_def DividedOutput_def ref_env_def ref_DividedOutput_def
      trust_pipe_def run_pipe_def exec_def git_def split: if_splits prod.splits option.splits)

lemma ref_status_world:
  "GitCheckStatus (ref_env F ig) c d s = (r, s') \<Longrightarrow> world s' = world s"
  by (auto simp: GitCheckStatus_def DividedOutput_def ref_env_def ref_DividedOutput_def
      status_pipe_def run_pipe_def exec_def git_def split: if_splits prod.splits option.splits)

lemma ref_append_keeps:
  "AppendToGitignoreFile (ref_env F ig) c d ps s = (r, s') \<Longrightarrow>
     repo (world s') = repo (world s) \<and> HEAD (world s') = HEAD (world s)"
  by (auto simp: AppendToGitignoreFile_def OpenFile_def WriteString_def Close_def ref_env_def
      ref_OpenFile_def ref_WriteString_def write_bytes_def ref_Close_def
      split: option.splits prod.splits sum.splits if_splits os_file.splits)

lemma run_rm_keeps:
  assumes "run_pipe ig (rm_pipe d) w = (r, w')"
  shows "repo w' = repo w \<and> HEAD w' = HEAD w"
proof -
  obtain r1 w1 where a: "exec ig (Some d) ''git''
      [''ls-files'', ''-ci'', ''--exclude-standard'', ''-z''] [] w = (r1, w1)"
    by (metis prod.collapse)
  obtain r2 w2 where b: "exec ig (Some d) ''xargs''
      [''-0'', ''-r'', ''git'', ''rm'', ''--cached''] (fst r1) w1 = (r2, w2)"
    by (metis prod.collapse)
  have "w' = w1 \<or> w' = w2"
    using assms a b
    by (auto simp: rm_pipe_def run_pipe_def split: prod.splits option.splits)
  then show ?thesis using exec_keeps [OF a] exec_keeps [OF b] by auto
qed

lemma ref_rm_keeps:
  "GitRemoveIgnoredFiles (ref_env F ig) c d s = (r, s') \<Longrightarrow>
     repo (world s') = repo (world s) \<and> HEAD (world s') = HEAD (world s)"
  by (auto simp: GitRemoveIgnoredFiles_def DividedOutput_def ref_env_def ref_DividedOutput_def
      split: prod.splits option.splits dest: run_rm_keeps)

lemma ref_ls_keeps:
  "GitListFiles (ref_env F ig) c d s = (r, s') \<Longrightarrow>
     repo (world s') = repo (world s) \<and> HEAD (world s') = HEAD (world s)"
  by (auto simp: GitListFiles_def DividedOutput_def ref_env_def ref_DividedOutput_def
      ls_pipe_def run_pipe_def split: prod.splits option.splits dest: exec_keeps)

lemma ref_steps_keeps:
  assumes "Check_steps (ref_env F ig) c inp ps b s = (r, s')"
  shows "repo (world s') = repo (world s) \<and> HEAD (world s') = HEAD (world s)"
proof -
  obtain r1 s1 where a: "AppendToGitignoreFile (ref_env F ig) c (RepoDir inp) ps s = (r1, s1)"
    by (metis prod.collapse)
  obtain r2 s2 where b: "GitRemoveIgnoredFiles (ref_env F ig) c (RepoDir inp) s1 = (r2, s2)"
    by (metis prod.collapse)
  obtain r3 s3 where c: "GitListFiles (ref_env F ig) c (RepoDir inp) s2 = (r3, s3)"
    by (metis prod.collapse)
  have "s' = s1 \<or> s' = s2 \<or> s' = s3"
    using assms a b c
    by (auto simp: Check_steps_def Let_def split: option.splits sum.splits if_splits)
  then show ?thesis
    using ref_append_keeps [OF a] ref_rm_keeps [OF b] ref_ls_keeps [OF c] by auto
qed

lemma ref_reset_world:
  "pipe_fault F (reset_pipe (repo (world s))) = None \<Longrightarrow>
     GitResetCurrentBranch (ref_env F ig) c (repo (world s)) s = (r, s') \<Longrightarrow>
     world s' = git_reset_hard (world s)"
  by (auto simp: GitResetCurrentBranch_def DividedOutput_def ref_env_def ref_DividedOutput_def
      reset_pipe_def run_pipe_def exec_def git_def split: prod.splits option.splits)

lemma ref_deferred_world:
  assumes "pipe_fault F (reset_pipe (repo (world s))) = None" and "RepoDir inp = repo (world s)"
  shows "world (snd (Check_deferred (ref_env F ig) c inp (r, s))) = git_reset_hard (world s)"
proof -
  obtain e s' where g: "GitResetCurrentBranch (ref_env F ig) c (repo (world s)) s = (e, s')"
    by (metis prod.collapse)
  have "snd (Check_deferred (ref_env F ig) c inp (r, s)) = s'"
    using g assms(2) by (auto simp: Check_deferred_def split: prod.splits)
  then show ?thesis using ref_reset_world [OF assms(1) g] by simp
qed

text \<open>
  C2, as the code has it. For a repository whose tree is clean at entry and a non-empty
  sequence of ownership entries: when the hard reset does not fail, the index holds the
  previous content for every path when \<^verbatim>\<open>Check\<close> returns, and the \<^verbatim>\<open>.gitignore\<close>
  file, if it is committed, has its previous content, on every path (cancellation, a
  failed status query, a reported issue, a failed step, success), whichever other calls
  fail.
\<close>

theorem Check_restores_tracked:
  assumes "CodeownersEntries inp \<noteq> []" and "RepoDir inp = repo (world s)"
    and "git_status ig (world s) = []"
    and "pipe_fault F (reset_pipe (repo (world s))) = None"
  shows "map_of (index (world (snd (Check (ref_env F ig) c cx inp s)))) = map_of (index (world s))
       \<and> (map_of (HEAD (world s)) ''.gitignore'' \<noteq> None \<longrightarrow>
            gitignore_of (world (snd (Check (ref_env F ig) c cx inp s))) = gitignore_of (world s))"
proof -
  let ?E = "ref_env F ig"
  let ?w = "world s"
  obtain r1 s1 where t: "trustWorkspaceIfNeeded ?E c (RepoDir inp) s = (r1, s1)"
    by (metis prod.collapse)
  obtain r2 s2 where g: "GitCheckStatus ?E c (RepoDir inp) s1 = (r2, s2)"
    by (metis prod.collapse)
  obtain r3 s3 where k: "Check_steps ?E c inp (patternsToBeIgnored c (CodeownersEntries inp))
      new_OutputBuilder s2 = (r3, s3)"
    by (metis prod.collapse)
  have w1: "world s1 = ?w" using ref_trust_world [OF t] .
  have w2: "world s2 = ?w" using ref_status_world [OF g] w1 by simp
  have k3: "repo (world s3) = repo ?w \<and> HEAD (world s3) = HEAD ?w"
    using ref_steps_keeps [OF k] w2 by simp
  have d: "world (snd (Check_deferred ?E c inp (r3, s3))) = git_reset_hard (world s3)"
    using ref_deferred_world [of F s3 inp ig c r3] assms(2,4) k3 by simp
  have cases: "world (snd (Check ?E c cx inp s)) = ?w
      \<or> world (snd (Check ?E c cx inp s)) = git_reset_hard (world s3)"
    using t g k d w1 w2
    by (auto simp: Check_def Let_def split: if_splits option.splits sum.splits)
  have i: "map_of (index (git_reset_hard (world s3))) = map_of (index ?w)"
    using git_reset_hard_result(1) [of "world s3"] k3 assms(3) clean_index [of ig ?w] by simp
  have f: "map_of (HEAD ?w) ''.gitignore'' \<noteq> None \<Longrightarrow>
      gitignore_of (git_reset_hard (world s3)) = gitignore_of ?w"
    using git_reset_hard_result(3) [of "world s3"]
      git_reset_hard_result(4) [of "world s3" "''.gitignore''"]
      k3 assms(3) clean_disk [of ig ?w "''.gitignore''"]
    by (simp add: gitignore_of_def)
  show ?thesis using cases i f by auto
qed

theorem Check_restores_tracked_witness:
  "CodeownersEntries ex_input \<noteq> [] \<and> RepoDir ex_input = repo (world (start ex_repo))
   \<and> git_status plain_ign (world (start ex_repo)) = []
   \<and> map_of (HEAD (world (start ex_repo))) ''.gitignore'' \<noteq> None
   \<and> pipe_fault rm_fails (reset_pipe (repo (world (start ex_repo)))) = None
   \<and> snd (fst (Check (ref_env rm_fails plain_ign) ex_checker live ex_input (start ex_repo))) \<noteq> None
   \<and> gitignore_of (world (snd (Check (ref_env rm_fails plain_ign) ex_checker live ex_input
        (start ex_repo)))) = gitignore_of (world (start ex_repo))
   \<and> map_of (index (world (snd (Check (ref_env rm_fails plain_ign) ex_checker live ex_input
        (start ex_repo))))) = map_of (index (world (start ex_repo)))"
proof -
  have h1: "CodeownersEntries ex_input \<noteq> []" by (simp add: ex_input_def)
  have h2: "RepoDir ex_input = repo (world (start ex_repo))"
    by (simp add: ex_input_def start_def ex_repo_def)
  have h3: "git_status plain_ign (world (start ex_repo)) = []" by code_simp
  have h4: "map_of (HEAD (world (start ex_repo))) ''.gitignore'' \<noteq> None"
    by (simp add: start_def ex_repo_def)
  have h5: "pipe_fault rm_fails (reset_pipe (repo (world (start ex_repo)))) = None" by code_simp
  have e: "snd (fst (Check (ref_env rm_fails plain_ign) ex_checker live ex_input (start ex_repo)))
      \<noteq> None"
    by code_simp
  show ?thesis
    using h1 h2 h3 h4 h5 e
      Check_restores_tracked [OF h1 h2 h3 h5, of ex_checker live]
    by simp
qed

text \<open>
  C2, as the claim states it, fails on two runs with one ownership entry on a clean tree.
  In the first the repository has no \<^verbatim>\<open>.gitignore\<close> and every call succeeds:
  \<^verbatim>\<open>Check\<close> returns a nil error, and the file that the append created is still there,
  untracked (the status is no longer clean). In the second the \<^verbatim>\<open>.gitignore\<close> is
  committed and the hard reset fails: the appended pattern is still in the file and
  \<^verbatim>\<open>a.txt\<close> is still out of the index.
\<close>

theorem Check_net_effect_counterexample:
  "CodeownersEntries ex_input \<noteq> []
   \<and> git_status plain_ign ex_repo_without_gitignore = []
   \<and> gitignore_of ex_repo_without_gitignore = None
   \<and> snd (fst (Check (ref_env no_faults plain_ign) ex_checker live ex_input
                 (start ex_repo_without_gitignore))) = None
   \<and> gitignore_of (world (snd (Check (ref_env no_faults plain_ign) ex_checker live ex_input
                 (start ex_repo_without_gitignore)))) = Some ''\<newline>a.txt\<newline>''
   \<and> git_status plain_ign (world (snd (Check (ref_env no_faults plain_ign) ex_checker live ex_input
                 (start ex_repo_without_gitignore)))) = ''?? .gitignore\<newline>''
   \<and> git_status plain_ign ex_repo = []
   \<and> gitignore_of ex_repo = Some ''build\<newline>''
   \<and> gitignore_of (world (snd (Check (ref_env reset_fails plain_ign) ex_checker live ex_input
                 (start ex_repo)))) = Some ''build\<newline>\<newline>a.txt\<newline>''
   \<and> index ex_repo = [(''.gitignore'', ''build\<newline>''), (''a.txt'', ''A''), (''c.txt'', ''C'')]
   \<and> index (world (snd (Check (ref_env reset_fails plain_ign) ex_checker live ex_input
                 (start ex_repo)))) = [(''.gitignore'', ''build\<newline>''), (''c.txt'', ''C'')]"
  by code_simp

end
